theory Spec2Isabelle
  imports Main
begin

section \<open>Data model (recipes/models.py)\<close>

text \<open>
  Every model class is a record; a table is the list of its rows. Primary keys and
  foreign keys are natural numbers. The uniqueness constraints that the model classes
  declare in their \<open>Meta.constraints\<close> are predicates on the database, defined below.
\<close>

record user =
  user_id :: nat
  username :: string
  email :: string
  first_name :: string
  last_name :: string
  avatar :: "string option"

record ingredient =
  ingredient_id :: nat
  name :: string
  measurement_unit :: string

record recipe =
  recipe_id :: nat
  recipe_name :: string
  author :: "nat option"
  recipe_text :: string
  image :: string
  cooking_time :: int
  pub_date :: int

text \<open>\<open>UserRecipeBase\<close>, the base of \<open>ShoppingCart\<close> and \<open>Favorite\<close>.\<close>

record user_recipe =
  ur_user :: nat
  ur_recipe :: nat

record recipe_ingredient =
  ri_recipe :: nat
  ri_ingredient :: nat
  amount :: int

record subscription =
  sub_author :: nat
  sub_user :: nat

record db =
  users :: "user list"
  ingredients :: "ingredient list"
  recipes :: "recipe list"
  recipe_ingredients :: "recipe_ingredient list"
  subscriptions :: "subscription list"
  shoppingcarts :: "user_recipe list"
  favorites :: "user_recipe list"

section \<open>Requests, responses and exceptions\<close>

datatype http_method = GET | POST | PUT | PATCH | DELETE

text \<open>\<open>request.user\<close>: Django's \<open>AnonymousUser\<close>, or the authenticated user (its id).\<close>

datatype request_user = AnonymousUser | AuthUser nat

record request =
  req_method :: http_method
  req_user :: request_user
  GET_params :: "(string \<times> string) list"

text \<open>
  The user-facing messages of the source are Russian sentences; each is one constructor.
  \<^item> \<open>CannotSubscribeToSelf\<close>: views.py line 108
  \<^item> \<open>AlreadySubscribed\<close>: views.py line 113
  \<^item> \<open>NotSubscribed\<close>: views.py line 122
  \<^item> \<open>RecipeAlreadyInList\<close>: views.py line 199
  \<^item> \<open>RecipeNotInList\<close>: views.py line 204
  \<^item> \<open>RemovedFromFavorites\<close>, \<open>RemovedFromShoppingCart\<close>: the \<open>delete_message\<close>
    arguments of views.py lines 223 and 235
\<close>

datatype message =
    CannotSubscribeToSelf
  | AlreadySubscribed
  | NotSubscribed
  | RecipeAlreadyInList
  | RecipeNotInList
  | RemovedFromFavorites
  | RemovedFromShoppingCart

text \<open>
  Exceptions that leave a view. \<open>ValidationError\<close> is the REST framework's (status 400),
  \<open>Http404\<close> comes from \<open>get_object_or_404\<close>, \<open>NotAuthenticated\<close> from the
  \<open>IsAuthenticated\<close> permission class; \<open>ValueError\<close>, \<open>IntegrityError\<close> and \<open>DataError\<close>
  are not handled by the framework and end the request with a server error.
  \<open>DataError\<close> stands for the exception with which the storage refuses a number that is
  out of the range of its column or of a row limit (the class of the exception depends
  on the database backend).
\<close>

datatype exn =
    ValidationError message
  | Http404
  | NotAuthenticated
  | ValueError
  | IntegrityError
  | DataError

text \<open>\<open>RecipeSummarySerializer\<close>: fields id, name, image, cooking_time.\<close>

record recipe_summary =
  rs_id :: nat
  rs_name :: string
  rs_image :: string
  rs_cooking_time :: int

text \<open>
  \<open>SubscriptionDetailSerializer\<close>: the fields of \<open>PublicUserSerializer\<close> and the two
  fields \<open>recipes\<close> and \<open>recipes_count\<close>.
\<close>

record subscription_detail =
  sd_is_subscribed :: bool
  sd_avatar :: "string option"
  sd_username :: string
  sd_first_name :: string
  sd_last_name :: string
  sd_id :: nat
  sd_email :: string
  sd_recipes :: "recipe_summary list"
  sd_recipes_count :: nat

datatype body =
    RecipeSummary recipe_summary
  | SubscriptionDetail subscription_detail
  | Errors message
  | Delete message
  | NoBody

record response =
  status :: nat
  data :: body

definition HTTP_201_CREATED :: nat where "HTTP_201_CREATED = 201"
definition HTTP_204_NO_CONTENT :: nat where "HTTP_204_NO_CONTENT = 204"
definition HTTP_400_BAD_REQUEST :: nat where "HTTP_400_BAD_REQUEST = 400"

text \<open>A 4xx status is a client error, a 5xx status a server fault.\<close>

definition is_client_error :: "nat \<Rightarrow> bool" where
  "is_client_error s = (400 \<le> s \<and> s < 500)"

section \<open>Serializers of users and subscriptions (api/serializers.py)\<close>

definition RecipeSummarySerializer :: "recipe \<Rightarrow> recipe_summary" where
  "RecipeSummarySerializer r =
     \<lparr>rs_id = recipe_id r, rs_name = recipe_name r, rs_image = image r,
      rs_cooking_time = cooking_time r\<rparr>"

text \<open>
  \<open>QueryDict.get\<close>: the last value given for the key, \<open>None\<close> when the key is absent.
\<close>

definition querydict_get :: "(string \<times> string) list \<Rightarrow> string \<Rightarrow> string option" where
  "querydict_get q k =
     (case filter (\<lambda>p. fst p = k) q of [] \<Rightarrow> None | p # ps \<Rightarrow> Some (snd (last (p # ps))))"

text \<open>
  \<open>subscribed_author.recipes.all()\<close>: the recipes whose author is the given user, in the
  order of \<open>Recipe.Meta.ordering\<close>, newest first.
\<close>

definition author_recipes :: "nat \<Rightarrow> db \<Rightarrow> recipe list" where
  "author_recipes uid d =
     sort_key (\<lambda>r. - pub_date r) (filter (\<lambda>r. author r = Some uid) (recipes d))"

definition default_limit :: int where
  "default_limit = 10 ^ 10"

text \<open>
  \<open>SubscriptionDetailSerializer.get_recipes\<close>. The parameter \<open>py_int\<close> is Python's \<open>int\<close>
  on strings, \<open>None\<close> standing for its \<open>ValueError\<close>; a missing request raises
  \<open>AttributeError\<close>; both are caught and give the default. The slice \<open>[:limit]\<close> of a
  queryset raises \<open>ValueError\<close> for a negative bound, outside the \<open>try\<close> block. Any
  other bound becomes the row limit of the query, which the storage reads as a signed
  64-bit integer: a larger bound fails when the serializer evaluates the queryset.
\<close>

definition max_limit :: int where
  "max_limit = 2 ^ 63 - 1"

definition recipes_limit :: "(string \<Rightarrow> int option) \<Rightarrow> request option \<Rightarrow> int" where
  "recipes_limit py_int ctx =
     (case ctx of
        None \<Rightarrow> default_limit
      | Some rq \<Rightarrow>
          (case querydict_get (GET_params rq) ''recipes_limit'' of
             None \<Rightarrow> default_limit
           | Some s \<Rightarrow> (case py_int s of None \<Rightarrow> default_limit | Some n \<Rightarrow> n)))"

definition get_recipes ::
  "(string \<Rightarrow> int option) \<Rightarrow> request option \<Rightarrow> user \<Rightarrow> db \<Rightarrow> exn + recipe_summary list" where
  "get_recipes py_int ctx subscribed_author d =
     (let limit = recipes_limit py_int ctx in
      if limit < 0 then Inl ValueError
      else if max_limit < limit then Inl DataError
      else Inr (map RecipeSummarySerializer
                  (take (nat limit) (author_recipes (user_id subscribed_author) d))))"

text \<open>\<open>PublicUserSerializer.get_is_subscribed\<close>.\<close>

definition get_is_subscribed :: "request option \<Rightarrow> user \<Rightarrow> db \<Rightarrow> bool" where
  "get_is_subscribed ctx target_user d =
     (case ctx of
        None \<Rightarrow> False
      | Some rq \<Rightarrow>
          (case req_user rq of
             AnonymousUser \<Rightarrow> False
           | AuthUser current_user \<Rightarrow>
               filter (\<lambda>s. sub_user s = current_user \<and> sub_author s = user_id target_user)
                 (subscriptions d) \<noteq> []))"

definition SubscriptionDetailSerializer ::
  "(string \<Rightarrow> int option) \<Rightarrow> request option \<Rightarrow> user \<Rightarrow> db \<Rightarrow> exn + subscription_detail" where
  "SubscriptionDetailSerializer py_int ctx u d =
     (case get_recipes py_int ctx u d of
        Inl e \<Rightarrow> Inl e
      | Inr rs \<Rightarrow>
          Inr \<lparr>sd_is_subscribed = get_is_subscribed ctx u d,
               sd_avatar = avatar u,
               sd_username = username u,
               sd_first_name = first_name u,
               sd_last_name = last_name u,
               sd_id = user_id u,
               sd_email = email u,
               sd_recipes = rs,
               sd_recipes_count = length (author_recipes (user_id u) d)\<rparr>)"

section \<open>Relation toggles (api/views.py)\<close>

text \<open>
  A view returns its outcome (a response, or the exception that left it) together with
  the database as the view left it: every write is in effect when it is made.
\<close>

type_synonym outcome = "(exn + response) \<times> db"

text \<open>\<open>UserViewSet.subscribe\<close>, with its permission class \<open>IsAuthenticated\<close>.\<close>

definition subscribe :: "(string \<Rightarrow> int option) \<Rightarrow> request \<Rightarrow> nat \<Rightarrow> db \<Rightarrow> outcome" where
  "subscribe py_int rq pk d =
     (case req_user rq of
        AnonymousUser \<Rightarrow> (Inl NotAuthenticated, d)
      | AuthUser usr \<Rightarrow>
          (case find (\<lambda>u. user_id u = pk) (users d) of
             None \<Rightarrow> (Inl Http404, d)
           | Some author_obj \<Rightarrow>
               if usr = user_id author_obj
               then (Inl (ValidationError CannotSubscribeToSelf), d)
               else if req_method rq = POST then
                 (if filter (\<lambda>s. sub_user s = usr \<and> sub_author s = user_id author_obj)
                       (subscriptions d) \<noteq> []
                  then (Inl (ValidationError AlreadySubscribed), d)
                  else
                    (let d' = d\<lparr>subscriptions := subscriptions d @
                                 [\<lparr>sub_author = user_id author_obj, sub_user = usr\<rparr>]\<rparr>
                     in (case SubscriptionDetailSerializer py_int (Some rq) author_obj d' of
                           Inl e \<Rightarrow> (Inl e, d')
                         | Inr x \<Rightarrow>
                             (Inr \<lparr>status = HTTP_201_CREATED, data = SubscriptionDetail x\<rparr>,
                              d'))))
               else
                 (if filter (\<lambda>s. sub_user s = usr \<and> sub_author s = user_id author_obj)
                       (subscriptions d) = []
                  then (Inr \<lparr>status = HTTP_400_BAD_REQUEST, data = Errors NotSubscribed\<rparr>, d)
                  else
                    (Inr \<lparr>status = HTTP_204_NO_CONTENT, data = NoBody\<rparr>,
                     d\<lparr>subscriptions :=
                         filter (\<lambda>s. \<not> (sub_user s = usr \<and> sub_author s = user_id author_obj))
                           (subscriptions d)\<rparr>))))"

text \<open>
  \<open>RecipeViewSet.shoppingcart_favorite_method\<close>. The parameter \<open>model\<close> is the model
  class, \<open>Favorite\<close> or \<open>ShoppingCart\<close>; \<open>objects\<close> is its table. Both actions that call
  the method carry the permission class \<open>IsAuthenticated\<close>, which is its first branch.
\<close>

datatype relation_model = Favorite | ShoppingCart

definition objects :: "relation_model \<Rightarrow> db \<Rightarrow> user_recipe list" where
  "objects model d = (case model of Favorite \<Rightarrow> favorites d | ShoppingCart \<Rightarrow> shoppingcarts d)"

definition set_objects :: "relation_model \<Rightarrow> user_recipe list \<Rightarrow> db \<Rightarrow> db" where
  "set_objects model rows d =
     (case model of
        Favorite \<Rightarrow> d\<lparr>favorites := rows\<rparr>
      | ShoppingCart \<Rightarrow> d\<lparr>shoppingcarts := rows\<rparr>)"

definition shoppingcart_favorite_method ::
  "request \<Rightarrow> nat \<Rightarrow> relation_model \<Rightarrow> message \<Rightarrow> db \<Rightarrow> outcome" where
  "shoppingcart_favorite_method rq pk model delete_message d =
     (case req_user rq of
        AnonymousUser \<Rightarrow> (Inl NotAuthenticated, d)
      | AuthUser usr \<Rightarrow>
          (case find (\<lambda>r. recipe_id r = pk) (recipes d) of
             None \<Rightarrow> (Inl Http404, d)
           | Some rcp \<Rightarrow>
               if req_method rq = POST then
                 (if filter (\<lambda>x. ur_user x = usr \<and> ur_recipe x = recipe_id rcp)
                       (objects model d) = []
                  then
                    (Inr \<lparr>status = HTTP_201_CREATED,
                          data = RecipeSummary (RecipeSummarySerializer rcp)\<rparr>,
                     set_objects model
                       (objects model d @ [\<lparr>ur_user = usr, ur_recipe = recipe_id rcp\<rparr>]) d)
                  else (Inl (ValidationError RecipeAlreadyInList), d))
               else
                 (if filter (\<lambda>x. ur_user x = usr \<and> ur_recipe x = recipe_id rcp)
                       (objects model d) = []
                  then (Inr \<lparr>status = HTTP_400_BAD_REQUEST, data = Errors RecipeNotInList\<rparr>, d)
                  else
                    (Inr \<lparr>status = HTTP_204_NO_CONTENT, data = Delete delete_message\<rparr>,
                     set_objects model
                       (filter (\<lambda>x. \<not> (ur_user x = usr \<and> ur_recipe x = recipe_id rcp))
                          (objects model d)) d))))"

definition favorite :: "request \<Rightarrow> nat \<Rightarrow> db \<Rightarrow> outcome" where
  "favorite rq pk d = shoppingcart_favorite_method rq pk Favorite RemovedFromFavorites d"

definition shopping_cart :: "request \<Rightarrow> nat \<Rightarrow> db \<Rightarrow> outcome" where
  "shopping_cart rq pk d =
     shoppingcart_favorite_method rq pk ShoppingCart RemovedFromShoppingCart d"

text \<open>
  The status of the reply a client sees: the response's own status, or the status the
  framework gives to the exception (400 for a validation error, 404, 401, and 500 for
  an exception it does not handle).
\<close>

definition reply_status :: "exn + response \<Rightarrow> nat" where
  "reply_status r =
     (case r of
        Inr resp \<Rightarrow> status resp
      | Inl (ValidationError m) \<Rightarrow> 400
      | Inl Http404 \<Rightarrow> 404
      | Inl NotAuthenticated \<Rightarrow> 401
      | Inl ValueError \<Rightarrow> 500
      | Inl IntegrityError \<Rightarrow> 500
      | Inl DataError \<Rightarrow> 500)"

section \<open>Recipe flags for the viewing user (api/serializers.py)\<close>

text \<open>
  \<open>RecipeRetrieveSerializer.get_is_favorited\<close> and \<open>get_is_in_shopping_cart\<close>. Each
  returns its flag together with the storage queries it issued: the \<open>exists()\<close> query on
  the favorites or shopping carts of the recipe, for the given user.
\<close>

datatype query = FavoriteExists nat nat | ShoppingCartExists nat nat

definition get_is_favorited :: "request option \<Rightarrow> recipe \<Rightarrow> db \<Rightarrow> bool \<times> query list" where
  "get_is_favorited ctx recipe_instance d =
     (case ctx of
        None \<Rightarrow> (False, [])
      | Some rq \<Rightarrow>
          (case req_user rq of
             AnonymousUser \<Rightarrow> (False, [])
           | AuthUser usr \<Rightarrow>
               (filter (\<lambda>x. ur_recipe x = recipe_id recipe_instance \<and> ur_user x = usr)
                  (favorites d) \<noteq> [],
                [FavoriteExists usr (recipe_id recipe_instance)])))"

definition get_is_in_shopping_cart ::
  "request option \<Rightarrow> recipe \<Rightarrow> db \<Rightarrow> bool \<times> query list" where
  "get_is_in_shopping_cart ctx recipe_instance d =
     (case ctx of
        None \<Rightarrow> (False, [])
      | Some rq \<Rightarrow>
          (case req_user rq of
             AnonymousUser \<Rightarrow> (False, [])
           | AuthUser usr \<Rightarrow>
               (filter (\<lambda>x. ur_recipe x = recipe_id recipe_instance \<and> ur_user x = usr)
                  (shoppingcarts d) \<noteq> [],
                [ShoppingCartExists usr (recipe_id recipe_instance)])))"

section \<open>Username validation (recipes/validators.py)\<close>

text \<open>
  \<open>USERNAME_PATTERN\<close> is the negated class \<open>[^\w.@+-]+\<close>. The class \<open>\w\<close> of the regular
  expression engine is the parameter \<open>is_word\<close>.
\<close>

definition allowed :: "(char \<Rightarrow> bool) \<Rightarrow> char \<Rightarrow> bool" where
  "allowed is_word c =
     (is_word c \<or> c = CHR ''.'' \<or> c = CHR ''@'' \<or> c = CHR ''+'' \<or> c = CHR ''-'')"

text \<open>
  \<open>pattern.findall\<close> for a pattern that is one character class repeated: the maximal
  runs of matching characters, left to right. \<open>cur\<close> is the run being read, reversed.
\<close>

fun findall_runs :: "(char \<Rightarrow> bool) \<Rightarrow> string \<Rightarrow> string \<Rightarrow> string list" where
  "findall_runs m cur [] = (if cur = [] then [] else [rev cur])"
| "findall_runs m cur (c # cs) =
     (if m c then findall_runs m (c # cur) cs
      else (if cur = [] then [] else [rev cur]) @ findall_runs m [] cs)"

definition USERNAME_PATTERN_findall :: "(char \<Rightarrow> bool) \<Rightarrow> string \<Rightarrow> string list" where
  "USERNAME_PATTERN_findall is_word s = findall_runs (\<lambda>c. \<not> allowed is_word c) [] s"

datatype username_error = ReservedUsername string | InvalidCharacters "string set"

definition validate_reserved_username :: "string \<Rightarrow> string \<Rightarrow> username_error + unit" where
  "validate_reserved_username USER_PROFILE_URL uname =
     (if uname = USER_PROFILE_URL then Inl (ReservedUsername USER_PROFILE_URL) else Inr ())"

definition validate_username_characters ::
  "(char \<Rightarrow> bool) \<Rightarrow> string \<Rightarrow> username_error + unit" where
  "validate_username_characters is_word uname =
     (let invalid_chars = USERNAME_PATTERN_findall is_word uname in
      if invalid_chars \<noteq> [] then Inl (InvalidCharacters (set invalid_chars)) else Inr ())"

definition validate_username ::
  "(char \<Rightarrow> bool) \<Rightarrow> string \<Rightarrow> string \<Rightarrow> username_error + unit" where
  "validate_username is_word USER_PROFILE_URL uname =
     (case validate_reserved_username USER_PROFILE_URL uname of
        Inl e \<Rightarrow> Inl e
      | Inr u \<Rightarrow> validate_username_characters is_word uname)"

section \<open>Ingredient lists of recipes (api/serializers.py)\<close>

text \<open>
  The errors of \<open>RecipeCreateUpdateSerializer\<close>: the field is empty (\<open>validate_items\<close>),
  ids that do not exist, ids that are not unique, and the message of \<open>validate\<close> itself
  for a missing or empty ingredient list.
\<close>

datatype serializer_error =
    FieldEmpty string
  | ItemsMissing string "nat set"
  | ItemsNotUnique string "nat set"
  | IngredientsEmpty

text \<open>
  \<open>validate_items\<close>. The parameter \<open>model_ids\<close> is the id column of \<open>model.objects\<close>.
  \<open>items.count(item)\<close> is \<open>count_list\<close>.
\<close>

definition validate_items :: "nat list \<Rightarrow> nat list \<Rightarrow> string \<Rightarrow> serializer_error + unit" where
  "validate_items items model_ids field_name =
     (if items = [] then Inl (FieldEmpty field_name)
      else
        (let existing_items = filter (\<lambda>i. i \<in> set items) model_ids;
             missing_items = set items - set existing_items
         in if missing_items \<noteq> {} then Inl (ItemsMissing field_name missing_items)
            else
              (let non_unique_ids = set (filter (\<lambda>item. count_list items item > 1) items)
               in if non_unique_ids \<noteq> {} then Inl (ItemsNotUnique field_name non_unique_ids)
                  else Inr ())))"

text \<open>An element of the \<open>ingredients\<close> list of a recipe payload.\<close>

record ingredient_item =
  item_id :: nat
  item_amount :: int

text \<open>
  \<open>validate\<close>: the argument is \<open>initial_data.get('ingredients')\<close>, \<open>None\<close> when the payload
  has no such key.
\<close>

definition validate :: "ingredient_item list option \<Rightarrow> db \<Rightarrow> serializer_error + unit" where
  "validate initial_ingredients d =
     (case initial_ingredients of
        None \<Rightarrow> Inl IngredientsEmpty
      | Some ings \<Rightarrow>
          if ings = [] then Inl IngredientsEmpty
          else validate_items (map item_id ings) (map ingredient_id (ingredients d))
                 ''ingredients'')"

text \<open>
  The three checks as the specification words them, each on its own: the problems of an
  id list, in the order empty list, unknown ids, duplicate ids.
\<close>

definition spec_problems :: "nat list \<Rightarrow> nat list \<Rightarrow> string \<Rightarrow> serializer_error list" where
  "spec_problems items model_ids field_name =
     (if items = [] then [FieldEmpty field_name] else []) @
     (if {i \<in> set items. i \<notin> set model_ids} \<noteq> {}
      then [ItemsMissing field_name {i \<in> set items. i \<notin> set model_ids}] else []) @
     (if {i \<in> set items. count_list items i > 1} \<noteq> {}
      then [ItemsNotUnique field_name {i \<in> set items. count_list items i > 1}] else [])"

text \<open>The problems that a result of validation reports to the caller.\<close>

definition reported :: "serializer_error + unit \<Rightarrow> serializer_error list" where
  "reported r = (case r of Inl e \<Rightarrow> [e] | Inr u \<Rightarrow> [])"

section \<open>Recipe create and update (api/serializers.py)\<close>

text \<open>
  Storage writes. No function of the source opens a transaction, so each write is in
  effect as soon as it is made, and a later failure does not undo it (the settings
  module is not among the source files; Django's default, autocommit without a
  transaction per request, is taken). A write fails with \<open>IntegrityError\<close> when it breaks
  a constraint of the model classes: \<open>unique_recipe_title_author\<close> (rows with a null
  author never collide), \<open>unique_recipe_ingredient\<close>, and the foreign key of a recipe
  ingredient to its ingredient.

  The amount of a recipe ingredient reaches the storage unbounded from above: the
  serializer declares it as \<open>IntegerField()\<close> and checks the minimum only, and
  \<open>bulk_create\<close> runs no validator of the model. The insert fails with \<open>DataError\<close> when an
  amount is out of the range of the integer column. The parameter \<open>storable\<close> holds of
  the numbers the column can store; the range depends on the database backend.
\<close>

definition recipe_conflict :: "recipe \<Rightarrow> db \<Rightarrow> bool" where
  "recipe_conflict r d =
     (author r \<noteq> None \<and>
      filter (\<lambda>x. recipe_id x \<noteq> recipe_id r \<and> recipe_name x = recipe_name r \<and>
                   author x = author r) (recipes d) \<noteq> [])"

definition next_id :: "nat list \<Rightarrow> nat" where
  "next_id ids = Suc (fold max ids 0)"

text \<open>
  The scalar fields of a validated recipe payload, and its ingredient list. The scalar
  fields come from serializer fields that are derived from the model fields, with
  their bounds; the amounts come from the field \<open>amount = serializers.IntegerField()\<close>
  that the serializer declares itself.
\<close>

record validated_data =
  vd_name :: string
  vd_text :: string
  vd_image :: string
  vd_cooking_time :: int
  vd_ingredients :: "ingredient_item list"

text \<open>
  \<open>Recipe.objects.create(author=author, **validated_data)\<close>, the ingredients popped;
  \<open>now\<close> is the clock that \<open>auto_now_add\<close> reads.
\<close>

definition Recipe_objects_create ::
  "int \<Rightarrow> nat \<Rightarrow> validated_data \<Rightarrow> db \<Rightarrow> exn + recipe \<times> db" where
  "Recipe_objects_create now author_id v d =
     (let r = \<lparr>recipe_id = next_id (map recipe_id (recipes d)),
                recipe_name = vd_name v,
                author = Some author_id,
                recipe_text = vd_text v,
                image = vd_image v,
                cooking_time = vd_cooking_time v,
                pub_date = now\<rparr>
      in if recipe_conflict r d then Inl IntegrityError
         else Inr (r, d\<lparr>recipes := recipes d @ [r]\<rparr>))"

text \<open>\<open>instance.save()\<close>: the row of the instance's id is overwritten, or inserted.\<close>

definition Recipe_save :: "recipe \<Rightarrow> db \<Rightarrow> exn + db" where
  "Recipe_save r d =
     (if recipe_conflict r d then Inl IntegrityError
      else if filter (\<lambda>x. recipe_id x = recipe_id r) (recipes d) = []
      then Inr (d\<lparr>recipes := recipes d @ [r]\<rparr>)
      else Inr (d\<lparr>recipes := map (\<lambda>x. if recipe_id x = recipe_id r then r else x)
                               (recipes d)\<rparr>))"

text \<open>\<open>instance.ingredients.clear()\<close>: every through-row of the recipe is deleted.\<close>

definition ingredients_clear :: "recipe \<Rightarrow> db \<Rightarrow> db" where
  "ingredients_clear instance d =
     d\<lparr>recipe_ingredients :=
         filter (\<lambda>x. ri_recipe x \<noteq> recipe_id instance) (recipe_ingredients d)\<rparr>"

text \<open>\<open>RecipeIngredient.objects.bulk_create\<close>: one insert of all rows, or none.\<close>

definition RecipeIngredient_bulk_create ::
  "(int \<Rightarrow> bool) \<Rightarrow> recipe_ingredient list \<Rightarrow> db \<Rightarrow> exn + db" where
  "RecipeIngredient_bulk_create storable rows d =
     (if filter (\<lambda>x. \<not> storable (amount x)) rows \<noteq> [] then Inl DataError
      else if distinct (map (\<lambda>x. (ri_recipe x, ri_ingredient x)) rows) \<and>
         filter (\<lambda>x. (ri_recipe x, ri_ingredient x) \<in>
                       set (map (\<lambda>y. (ri_recipe y, ri_ingredient y)) (recipe_ingredients d)))
           rows = [] \<and>
         filter (\<lambda>x. ri_ingredient x \<notin> set (map ingredient_id (ingredients d))) rows = []
      then Inr (d\<lparr>recipe_ingredients := recipe_ingredients d @ rows\<rparr>)
      else Inl IntegrityError)"

definition set_ingredients ::
  "(int \<Rightarrow> bool) \<Rightarrow> recipe \<Rightarrow> ingredient_item list \<Rightarrow> db \<Rightarrow> exn + db" where
  "set_ingredients storable rcp ings d =
     RecipeIngredient_bulk_create storable
       (map (\<lambda>i. \<lparr>ri_recipe = recipe_id rcp, ri_ingredient = item_id i,
                  amount = item_amount i\<rparr>) ings) d"

text \<open>
  \<open>RecipeCreateUpdateSerializer.create\<close>. The recipe views admit writes from
  authenticated users only.
\<close>

definition create ::
  "(int \<Rightarrow> bool) \<Rightarrow> int \<Rightarrow> request \<Rightarrow> validated_data \<Rightarrow> db \<Rightarrow> (exn + recipe) \<times> db" where
  "create storable now rq v d =
     (case req_user rq of
        AnonymousUser \<Rightarrow> (Inl NotAuthenticated, d)
      | AuthUser author_id \<Rightarrow>
          (case Recipe_objects_create now author_id v d of
             Inl e \<Rightarrow> (Inl e, d)
           | Inr (recipe_instance, d1) \<Rightarrow>
               (case set_ingredients storable recipe_instance (vd_ingredients v) d1 of
                  Inl e \<Rightarrow> (Inl e, d1)
                | Inr d2 \<Rightarrow> (Inr recipe_instance, d2))))"

text \<open>
  The validated payload of an update: on a partial update a scalar field may be absent.
  \<open>super().update\<close> sets the attributes that are present and saves the instance.
\<close>

record update_data =
  ud_name :: "string option"
  ud_text :: "string option"
  ud_image :: "string option"
  ud_cooking_time :: "int option"
  ud_ingredients :: "ingredient_item list"

definition set_attrs :: "recipe \<Rightarrow> update_data \<Rightarrow> recipe" where
  "set_attrs instance v =
     instance\<lparr>recipe_name := (case ud_name v of None \<Rightarrow> recipe_name instance | Some x \<Rightarrow> x),
              recipe_text := (case ud_text v of None \<Rightarrow> recipe_text instance | Some x \<Rightarrow> x),
              image := (case ud_image v of None \<Rightarrow> image instance | Some x \<Rightarrow> x),
              cooking_time :=
                (case ud_cooking_time v of None \<Rightarrow> cooking_time instance | Some x \<Rightarrow> x)\<rparr>"

text \<open>\<open>RecipeCreateUpdateSerializer.update\<close>.\<close>

definition update ::
  "(int \<Rightarrow> bool) \<Rightarrow> recipe \<Rightarrow> update_data \<Rightarrow> db \<Rightarrow> (exn + recipe) \<times> db" where
  "update storable instance v d =
     (case Recipe_save instance d of
        Inl e \<Rightarrow> (Inl e, d)
      | Inr d1 \<Rightarrow>
          (let d2 = ingredients_clear instance d1 in
           case set_ingredients storable instance (ud_ingredients v) d2 of
             Inl e \<Rightarrow> (Inl e, d2)
           | Inr d3 \<Rightarrow>
               (case Recipe_save (set_attrs instance v) d3 of
                  Inl e \<Rightarrow> (Inl e, d3)
                | Inr d4 \<Rightarrow> (Inr (set_attrs instance v), d4))))"

text \<open>The rows of the recipe-ingredient table that belong to a recipe.\<close>

definition ingredient_rows :: "nat \<Rightarrow> db \<Rightarrow> recipe_ingredient list" where
  "ingredient_rows rid d = filter (\<lambda>x. ri_recipe x = rid) (recipe_ingredients d)"

section \<open>Shopping list (api/views.py, api/utils.py)\<close>

text \<open>
  The filter \<open>recipeingredients__recipe__shoppingcarts__user=user\<close> on ingredients is an
  inner join of four tables: one row for every ingredient, recipe ingredient of it,
  recipe of that row and cart row of that recipe and the user.
\<close>

definition cart_join :: "nat \<Rightarrow> db \<Rightarrow> (ingredient \<times> recipe_ingredient) list" where
  "cart_join usr d =
     concat (map (\<lambda>i.
       concat (map (\<lambda>ri.
         concat (map (\<lambda>r.
           map (\<lambda>sc. (i, ri))
             (filter (\<lambda>sc. ur_recipe sc = recipe_id r \<and> ur_user sc = usr) (shoppingcarts d)))
           (filter (\<lambda>r. recipe_id r = ri_recipe ri) (recipes d))))
         (filter (\<lambda>ri. ri_ingredient ri = ingredient_id i) (recipe_ingredients d))))
       (ingredients d))"

text \<open>A row of \<open>.values("name", measurement=...).annotate(amount=Sum(...))\<close>.\<close>

record cart_line =
  cl_name :: string
  cl_measurement :: string
  cl_amount :: int

text \<open>
  The queryset \<open>ingredients\<close> of \<open>download_shopping_cart\<close>: the joined rows are grouped by
  the two values, name and measurement unit, and the amounts of a group are summed.
\<close>

definition shopping_cart_ingredients :: "nat \<Rightarrow> db \<Rightarrow> cart_line list" where
  "shopping_cart_ingredients usr d =
     (let rows = cart_join usr d;
          groups = remdups (map (\<lambda>p. (name (fst p), measurement_unit (fst p))) rows)
      in map (\<lambda>k. \<lparr>cl_name = fst k, cl_measurement = snd k,
                    cl_amount = sum_list (map (\<lambda>p. amount (snd p))
                      (filter (\<lambda>p. (name (fst p), measurement_unit (fst p)) = k) rows))\<rparr>)
           groups)"

text \<open>\<open>Recipe.objects.filter(shoppingcarts__user=user)\<close>, newest first.\<close>

definition shopping_cart_recipes :: "nat \<Rightarrow> db \<Rightarrow> recipe list" where
  "shopping_cart_recipes usr d =
     sort_key (\<lambda>r. - pub_date r)
       (concat (map (\<lambda>r.
          map (\<lambda>sc. r)
            (filter (\<lambda>sc. ur_recipe sc = recipe_id r \<and> ur_user sc = usr) (shoppingcarts d)))
          (recipes d)))"

text \<open>
  \<open>generate_txt\<close>. The document is the list of its lines; the fixed Russian titles are
  constructors, a numbered line keeps its number and its parts, so that
  \<open>IngredientLine 1 ''Salt'' 5 ''g''\<close> is the line \<open>1. Salt: 5 g\<close>. The parameter
  \<open>capitalize\<close> is Python's \<open>str.capitalize\<close>, which acts on every cased character of
  Unicode.
\<close>

datatype txt_line =
    Header string
  | RecipesTitle
  | RecipeLine nat string
  | ProductsTitle
  | IngredientLine nat string int string

definition generate_txt ::
  "(string \<Rightarrow> string) \<Rightarrow> string \<Rightarrow> cart_line list \<Rightarrow> string list \<Rightarrow> txt_line list" where
  "generate_txt capitalize current_timestamp ings rcps =
     [Header current_timestamp] @
     (RecipesTitle # map (\<lambda>p. RecipeLine (fst p) (snd p)) (enumerate 1 rcps)) @
     [ProductsTitle] @
     map (\<lambda>p. IngredientLine (fst p) (capitalize (cl_name (snd p))) (cl_amount (snd p))
                (cl_measurement (snd p)))
       (enumerate 1 ings)"

text \<open>
  \<open>RecipeViewSet.download_shopping_cart\<close>. A recipe is printed by \<open>Recipe.__str__\<close>, its
  name cut to \<open>MAX_LENGTH_NAME\<close> characters.
\<close>

definition download_shopping_cart ::
  "(string \<Rightarrow> string) \<Rightarrow> nat \<Rightarrow> string \<Rightarrow> request \<Rightarrow> db \<Rightarrow> exn + txt_line list" where
  "download_shopping_cart capitalize MAX_LENGTH_NAME current_timestamp rq d =
     (case req_user rq of
        AnonymousUser \<Rightarrow> Inl NotAuthenticated
      | AuthUser usr \<Rightarrow>
          Inr (generate_txt capitalize current_timestamp (shopping_cart_ingredients usr d)
                 (map (\<lambda>r. take MAX_LENGTH_NAME (recipe_name r))
                    (shopping_cart_recipes usr d))))"

text \<open>
  The constraints of the model classes that the shopping list relies on: the unique
  pairs of \<open>Ingredient\<close> and \<open>ShoppingCart\<close>, the primary key of \<open>Recipe\<close>, and the foreign
  key of a cart row to its recipe.
\<close>

definition unique_ingredient_name_unit :: "db \<Rightarrow> bool" where
  "unique_ingredient_name_unit d =
     distinct (map (\<lambda>i. (name i, measurement_unit i)) (ingredients d))"

definition shoppingcart_unique_user_recipe :: "db \<Rightarrow> bool" where
  "shoppingcart_unique_user_recipe d =
     distinct (map (\<lambda>x. (ur_user x, ur_recipe x)) (shoppingcarts d))"

definition recipe_pk :: "db \<Rightarrow> bool" where
  "recipe_pk d = distinct (map recipe_id (recipes d))"

definition shoppingcart_recipe_fk :: "db \<Rightarrow> bool" where
  "shoppingcart_recipe_fk d =
     (set (map ur_recipe (shoppingcarts d)) \<subseteq> set (map recipe_id (recipes d)))"

text \<open>The ids of the recipes in a user's shopping cart.\<close>

definition cart_recipe_ids :: "nat \<Rightarrow> db \<Rightarrow> nat set" where
  "cart_recipe_ids usr d = set (map ur_recipe (filter (\<lambda>x. ur_user x = usr) (shoppingcarts d)))"

section \<open>Example data\<close>

text \<open>
  Signed decimal numerals, on which Python's \<open>int\<close> is the value of the numeral: the
  instance of \<open>py_int\<close> in the examples.
\<close>

fun dec_nat :: "nat \<Rightarrow> string \<Rightarrow> nat option" where
  "dec_nat acc [] = Some acc"
| "dec_nat acc (c # cs) =
     (let n = (of_char c :: nat) in
      if 48 \<le> n \<and> n \<le> 57 then dec_nat (10 * acc + (n - 48)) cs else None)"

definition dec_int :: "string \<Rightarrow> int option" where
  "dec_int s =
     (case s of
        [] \<Rightarrow> None
      | c # cs \<Rightarrow>
          if c = CHR ''-'' then (if cs = [] then None else map_option (\<lambda>n. - int n) (dec_nat 0 cs))
          else map_option int (dec_nat 0 s))"

text \<open>The word characters of ASCII: letters, digits and the underscore.\<close>

definition ascii_word :: "char \<Rightarrow> bool" where
  "ascii_word c =
     (let n = (of_char c :: nat) in
      (48 \<le> n \<and> n \<le> 57) \<or> (65 \<le> n \<and> n \<le> 90) \<or> n = 95 \<or> (97 \<le> n \<and> n \<le> 122))"

text \<open>\<open>str.capitalize\<close> on strings of ASCII characters.\<close>

definition ascii_upper :: "char \<Rightarrow> char" where
  "ascii_upper c =
     (let n = (of_char c :: nat) in if 97 \<le> n \<and> n \<le> 122 then char_of (n - 32) else c)"

definition ascii_lower :: "char \<Rightarrow> char" where
  "ascii_lower c =
     (let n = (of_char c :: nat) in if 65 \<le> n \<and> n \<le> 90 then char_of (n + 32) else c)"

fun ascii_capitalize :: "string \<Rightarrow> string" where
  "ascii_capitalize [] = []"
| "ascii_capitalize (c # cs) = ascii_upper c # map ascii_lower cs"

text \<open>The range of a 32-bit integer column, as PostgreSQL has it.\<close>

definition int32 :: "int \<Rightarrow> bool" where
  "int32 n = (- (2 ^ 31) \<le> n \<and> n < 2 ^ 31)"

definition alice :: user where
  "alice = \<lparr>user_id = 1, username = ''alice'', email = ''alice@example.org'',
            first_name = ''Alice'', last_name = ''A'', avatar = None\<rparr>"

definition bob :: user where
  "bob = \<lparr>user_id = 2, username = ''bob'', email = ''bob@example.org'',
          first_name = ''Bob'', last_name = ''B'', avatar = None\<rparr>"

definition salt :: ingredient where
  "salt = \<lparr>ingredient_id = 1, name = ''salt'', measurement_unit = ''g''\<rparr>"

definition sugar :: ingredient where
  "sugar = \<lparr>ingredient_id = 2, name = ''sugar'', measurement_unit = ''g''\<rparr>"

definition recipe_A :: recipe where
  "recipe_A = \<lparr>recipe_id = 1, recipe_name = ''A'', author = Some 1, recipe_text = ''a'',
               image = ''a.png'', cooking_time = 10, pub_date = 1\<rparr>"

definition recipe_B :: recipe where
  "recipe_B = \<lparr>recipe_id = 2, recipe_name = ''B'', author = Some 1, recipe_text = ''b'',
               image = ''b.png'', cooking_time = 20, pub_date = 2\<rparr>"

text \<open>
  Alice wrote recipe A (2 g of salt) and recipe B (3 g of salt); Bob has both in his
  shopping cart.
\<close>

definition example_db :: db where
  "example_db =
     \<lparr>users = [alice, bob],
      ingredients = [salt, sugar],
      recipes = [recipe_A, recipe_B],
      recipe_ingredients =
        [\<lparr>ri_recipe = 1, ri_ingredient = 1, amount = 2\<rparr>,
         \<lparr>ri_recipe = 2, ri_ingredient = 1, amount = 3\<rparr>],
      subscriptions = [],
      shoppingcarts = [\<lparr>ur_user = 2, ur_recipe = 1\<rparr>, \<lparr>ur_user = 2, ur_recipe = 2\<rparr>],
      favorites = []\<rparr>"

text \<open>The same data with a row that subscribes Alice to herself.\<close>

definition self_subscribed_db :: db where
  "self_subscribed_db = example_db\<lparr>subscriptions := [\<lparr>sub_author = 1, sub_user = 1\<rparr>]\<rparr>"

definition post_as_alice :: request where
  "post_as_alice = \<lparr>req_method = POST, req_user = AuthUser 1, GET_params = []\<rparr>"

definition delete_as_alice :: request where
  "delete_as_alice = \<lparr>req_method = DELETE, req_user = AuthUser 1, GET_params = []\<rparr>"

definition post_as_bob :: request where
  "post_as_bob = \<lparr>req_method = POST, req_user = AuthUser 2, GET_params = []\<rparr>"

definition delete_as_bob :: request where
  "delete_as_bob = \<lparr>req_method = DELETE, req_user = AuthUser 2, GET_params = []\<rparr>"

definition get_as_anonymous :: request where
  "get_as_anonymous = \<lparr>req_method = GET, req_user = AnonymousUser, GET_params = []\<rparr>"

text \<open>A request of Bob that carries the query parameter \<open>recipes_limit\<close>.\<close>

definition limit_request :: "string \<Rightarrow> request" where
  "limit_request s =
     \<lparr>req_method = GET, req_user = AuthUser 2, GET_params = [(''recipes_limit'', s)]\<rparr>"

text \<open>
  Recipe A with one ingredient, salt in amount 1; the payloads of two updates: one that
  replaces the ingredients of recipe A by sugar in amount 2, and one that renames
  recipe B to the name of recipe A (same author) and sets its ingredients to sugar in
  amount 5; and the payload of a new recipe C.
\<close>

definition one_ingredient_db :: db where
  "one_ingredient_db =
     example_db\<lparr>recipe_ingredients := [\<lparr>ri_recipe = 1, ri_ingredient = 1, amount = 1\<rparr>]\<rparr>"

definition sugar_only :: update_data where
  "sugar_only =
     \<lparr>ud_name = None, ud_text = None, ud_image = None, ud_cooking_time = None,
      ud_ingredients = [\<lparr>item_id = 2, item_amount = 2\<rparr>]\<rparr>"

definition rename_to_A :: update_data where
  "rename_to_A =
     \<lparr>ud_name = Some ''A'', ud_text = None, ud_image = None, ud_cooking_time = None,
      ud_ingredients = [\<lparr>item_id = 2, item_amount = 5\<rparr>]\<rparr>"

definition recipe_C_data :: validated_data where
  "recipe_C_data =
     \<lparr>vd_name = ''C'', vd_text = ''c'', vd_image = ''c.png'', vd_cooking_time = 5,
      vd_ingredients = [\<lparr>item_id = 1, item_amount = 4\<rparr>, \<lparr>item_id = 2, item_amount = 6\<rparr>]\<rparr>"

text \<open>
  Payloads with an amount that a 32-bit column cannot store: a new recipe D, and an
  update of the ingredients of recipe A.
\<close>

definition recipe_D_data :: validated_data where
  "recipe_D_data =
     \<lparr>vd_name = ''D'', vd_text = ''d'', vd_image = ''d.png'', vd_cooking_time = 5,
      vd_ingredients = [\<lparr>item_id = 1, item_amount = 2 ^ 31\<rparr>]\<rparr>"

definition too_much_sugar :: update_data where
  "too_much_sugar =
     \<lparr>ud_name = None, ud_text = None, ud_image = None, ud_cooking_time = None,
      ud_ingredients = [\<lparr>item_id = 2, item_amount = 2 ^ 31\<rparr>]\<rparr>"

text \<open>The foreign key of a recipe ingredient to its recipe.\<close>

definition recipe_ingredient_recipe_fk :: "db \<Rightarrow> bool" where
  "recipe_ingredient_recipe_fk d =
     (set (map ri_recipe (recipe_ingredients d)) \<subseteq> set (map recipe_id (recipes d)))"

text \<open>A request of Bob without query parameters.\<close>

definition get_as_bob :: request where
  "get_as_bob = \<lparr>req_method = GET, req_user = AuthUser 2, GET_params = []\<rparr>"

section \<open>Proofs\<close>

lemma find_user_id:
  "find (\<lambda>u. user_id u = pk) us = Some a \<Longrightarrow> user_id a = pk"
  by (induction us) (auto split: if_splits)

lemma find_user_exists:
  "pk \<in> user_id ` set us \<Longrightarrow> \<exists>a. find (\<lambda>u. user_id u = pk) us = Some a \<and> user_id a = pk"
  by (induction us) auto

text \<open>
  Claim C8. An authenticated user who asks to subscribe (POST) to their own id gets the
  self-subscription validation error, whatever the subscription table holds, also when
  it already holds the pair of the user with themselves; the database is left as it was.
  The user of an authenticated request has a row in the user table.
\<close>

theorem subscribe_self_forbidden:
  assumes "req_user rq = AuthUser u" and "req_method rq = POST"
    and "u \<in> user_id ` set (users d)"
  shows "subscribe py_int rq u d = (Inl (ValidationError CannotSubscribeToSelf), d)"
proof -
  obtain a where "find (\<lambda>x. user_id x = u) (users d) = Some a" "user_id a = u"
    using find_user_exists [OF assms(3)] by blast
  then show ?thesis
    using assms(1) by (simp add: subscribe_def)
qed

theorem subscribe_self_forbidden_witness:
  "req_user post_as_alice = AuthUser 1 \<and> req_method post_as_alice = POST \<and>
   1 \<in> user_id ` set (users self_subscribed_db) \<and>
   \<lparr>sub_author = 1, sub_user = 1\<rparr> \<in> set (subscriptions self_subscribed_db) \<and>
   subscribe dec_int post_as_alice 1 self_subscribed_db =
     (Inl (ValidationError CannotSubscribeToSelf), self_subscribed_db)"
proof -
  have h1: "req_user post_as_alice = AuthUser 1" and h2: "req_method post_as_alice = POST"
    by (simp_all add: post_as_alice_def)
  have h3: "1 \<in> user_id ` set (users self_subscribed_db)"
    by (simp add: self_subscribed_db_def example_db_def alice_def)
  have h4: "\<lparr>sub_author = 1, sub_user = 1\<rparr> \<in> set (subscriptions self_subscribed_db)"
    by (simp add: self_subscribed_db_def)
  show ?thesis
    using h1 h2 h3 h4 subscribe_self_forbidden [OF h1 h2 h3, of dec_int] by simp
qed

text \<open>
  Claim C10. The comparison of the user with the author stands before the branch on the
  request method, so it guards the removal too: an authenticated user who asks to
  unsubscribe (DELETE) from their own id gets the self-subscription validation error,
  not the reply of the not-subscribed check, and the database is left as it was.
\<close>

theorem unsubscribe_self_forbidden:
  assumes "req_user rq = AuthUser u" and "req_method rq = DELETE"
    and "u \<in> user_id ` set (users d)"
  shows "subscribe py_int rq u d = (Inl (ValidationError CannotSubscribeToSelf), d)"
proof -
  obtain a where "find (\<lambda>x. user_id x = u) (users d) = Some a" "user_id a = u"
    using find_user_exists [OF assms(3)] by blast
  then show ?thesis
    using assms(1) by (simp add: subscribe_def)
qed

theorem unsubscribe_self_forbidden_witness:
  "req_user delete_as_alice = AuthUser 1 \<and> req_method delete_as_alice = DELETE \<and>
   1 \<in> user_id ` set (users example_db) \<and>
   subscriptions example_db = [] \<and>
   subscribe dec_int delete_as_alice 1 example_db =
     (Inl (ValidationError CannotSubscribeToSelf), example_db)"
proof -
  have h1: "req_user delete_as_alice = AuthUser 1" and h2: "req_method delete_as_alice = DELETE"
    by (simp_all add: delete_as_alice_def)
  have h3: "1 \<in> user_id ` set (users example_db)"
    by (simp add: example_db_def alice_def)
  have h4: "subscriptions example_db = []"
    by (simp add: example_db_def)
  show ?thesis
    using h1 h2 h3 h4 unsubscribe_self_forbidden [OF h1 h2 h3, of dec_int] by simp
qed

text \<open>
  Claim C7. For a viewer who is not authenticated (the request carries the anonymous
  user, or the serializer has no request at all) both flags of every recipe are false
  whatever the favorites and shopping carts hold, and neither method issues a query.
\<close>

theorem anonymous_flags_false:
  assumes "ctx = None \<or> (\<exists>rq. ctx = Some rq \<and> req_user rq = AnonymousUser)"
  shows "get_is_favorited ctx r d = (False, []) \<and> get_is_in_shopping_cart ctx r d = (False, [])"
  using assms by (auto simp: get_is_favorited_def get_is_in_shopping_cart_def)

theorem anonymous_flags_false_witness:
  "req_user get_as_anonymous = AnonymousUser \<and>
   shoppingcarts example_db \<noteq> [] \<and>
   get_is_favorited (Some get_as_anonymous) recipe_A example_db = (False, []) \<and>
   get_is_in_shopping_cart (Some get_as_anonymous) recipe_A example_db = (False, [])"
  using anonymous_flags_false [of "Some get_as_anonymous" recipe_A example_db]
  by (simp add: get_as_anonymous_def example_db_def)

text \<open>
  What the fallback of \<open>get_recipes\<close> covers: a limit that is missing (no request, or no
  parameter \<open>recipes_limit\<close>) or that \<open>int\<close> rejects gives the default limit \<open>10 ^ 10\<close>, and
  a limit that \<open>int\<close> accepts, that is not negative and that the storage takes as a row
  limit cuts the author's recipes to at most that many.
\<close>

lemma get_recipes_in_range:
  "((ctx = None \<or>
     (\<exists>rq. ctx = Some rq \<and>
        (querydict_get (GET_params rq) ''recipes_limit'' = None \<or>
         (\<exists>s. querydict_get (GET_params rq) ''recipes_limit'' = Some s \<and> py_int s = None)))) \<longrightarrow>
    get_recipes py_int ctx a d =
      Inr (map RecipeSummarySerializer (take (nat default_limit) (author_recipes (user_id a) d)))) \<and>
   (\<forall>rq s n. ctx = Some rq \<and> querydict_get (GET_params rq) ''recipes_limit'' = Some s \<and>
        py_int s = Some n \<and> 0 \<le> n \<and> n \<le> max_limit \<longrightarrow>
      get_recipes py_int ctx a d =
        Inr (map RecipeSummarySerializer (take (nat n) (author_recipes (user_id a) d))) \<and>
      (\<forall>rs. get_recipes py_int ctx a d = Inr rs \<longrightarrow> int (length rs) \<le> n))"
proof -
  have dl: "\<not> default_limit < 0" "\<not> max_limit < default_limit"
    by (simp_all add: default_limit_def max_limit_def)
  show ?thesis
    using dl by (auto simp: get_recipes_def recipes_limit_def Let_def split: option.splits)
qed

text \<open>
  Claim C9. A limit that is missing or that is not an integer falls back to the default
  and does not fail the view-model, and every valid integer limit cuts the author's
  recipes to at most that limit. The code aims at this: it wraps the conversion in
  \<open>try\<close> and \<open>except ValueError\<close>, and the parameters \<open>abc\<close> and \<open>1\<close> give Alice's two recipes
  and the newest one. It misses the integers that the slice of the queryset cannot
  take: for \<open>recipes_limit=-1\<close> the conversion succeeds, so the fallback does not apply,
  and the slice raises \<open>ValueError\<close> outside the \<open>try\<close> block; the view-model is not
  built and the request ends with a server error. A limit of \<open>2 ^ 63\<close> fails likewise,
  at the storage.
\<close>

theorem get_recipes_negative_limit:
  "dec_int ''-1'' = Some (- 1) \<and>
   get_recipes dec_int (Some (limit_request ''-1'')) alice example_db = Inl ValueError \<and>
   reply_status (Inl ValueError) = 500 \<and>
   dec_int ''9223372036854775808'' = Some (2 ^ 63) \<and>
   get_recipes dec_int (Some (limit_request ''9223372036854775808'')) alice example_db =
     Inl DataError \<and>
   dec_int ''abc'' = None \<and>
   get_recipes dec_int (Some (limit_request ''abc'')) alice example_db =
     Inr [RecipeSummarySerializer recipe_B, RecipeSummarySerializer recipe_A] \<and>
   dec_int ''1'' = Some 1 \<and>
   get_recipes dec_int (Some (limit_request ''1'')) alice example_db =
     Inr [RecipeSummarySerializer recipe_B]"
proof -
  have p: "dec_int ''-1'' = Some (- 1)" "dec_int ''abc'' = None" "dec_int ''1'' = Some 1"
    by (simp_all add: dec_int_def)
  have p': "dec_int ''9223372036854775808'' = Some (2 ^ 63)"
    by (simp add: dec_int_def)
  have q: "querydict_get (GET_params (limit_request s)) ''recipes_limit'' = Some s" for s
    by (simp add: querydict_get_def limit_request_def)
  have ar: "author_recipes (user_id alice) example_db = [recipe_B, recipe_A]"
    by (simp add: author_recipes_def example_db_def alice_def recipe_A_def recipe_B_def)
  have tk: "take (nat default_limit) [recipe_B, recipe_A] = [recipe_B, recipe_A]"
    by (rule take_all) (simp add: default_limit_def)
  have dl: "\<not> default_limit < 0" "\<not> max_limit < default_limit"
    by (simp_all add: default_limit_def max_limit_def)
  have r1: "get_recipes dec_int (Some (limit_request ''-1'')) alice example_db = Inl ValueError"
    by (simp add: get_recipes_def recipes_limit_def q p)
  have r2: "get_recipes dec_int (Some (limit_request ''9223372036854775808'')) alice example_db =
     Inl DataError"
    by (simp add: get_recipes_def recipes_limit_def q p' max_limit_def)
  have r3: "get_recipes dec_int (Some (limit_request ''abc'')) alice example_db =
     Inr [RecipeSummarySerializer recipe_B, RecipeSummarySerializer recipe_A]"
    using dl by (simp add: get_recipes_def recipes_limit_def q p ar tk)
  have r4: "get_recipes dec_int (Some (limit_request ''1'')) alice example_db =
     Inr [RecipeSummarySerializer recipe_B]"
    by (simp add: get_recipes_def recipes_limit_def q p ar max_limit_def)
  have s: "reply_status (Inl ValueError) = 500"
    by (simp add: reply_status_def)
  from p p' r1 r2 r3 r4 s show ?thesis
    by blast
qed

section \<open>Validation of ingredient lists\<close>

lemma missing_items_eq:
  "set items - set (filter (\<lambda>i. i \<in> set items) model_ids) = {i \<in> set items. i \<notin> set model_ids}"
  by auto

lemma non_unique_ids_eq:
  "set (filter (\<lambda>item. count_list items item > 1) items) = {i \<in> set items. count_list items i > 1}"
  by auto

lemma cx_missing: "{i \<in> set [1, 1, 9::nat]. i \<notin> set [1]} = {9}"
  by auto

lemma cx_dups: "{i \<in> set [1, 1, 9::nat]. count_list [1, 1, 9] i > 1} = {1}"
  by auto

text \<open>
  Claim C2, as the code has it. \<open>validate_items\<close> raises at the first check that fails,
  in the order empty list, unknown ids, duplicate ids: what the caller receives is the
  first of the problems of the list, alone, and validation succeeds exactly when the
  list has no problem. Within the one check reported, the ids are complete: every id
  that is not in storage, or every id that occurs more than once.
\<close>

theorem validate_items_first_problem:
  "reported (validate_items items model_ids field_name) =
     take 1 (spec_problems items model_ids field_name) \<and>
   (validate_items items model_ids field_name = Inr () \<longleftrightarrow>
     spec_problems items model_ids field_name = [])"
proof (cases "items = []")
  case True
  then show ?thesis
    by (simp add: validate_items_def spec_problems_def reported_def)
next
  case nonempty: False
  show ?thesis
  proof (cases "{i \<in> set items. i \<notin> set model_ids} = {}")
    case False
    with nonempty show ?thesis
      unfolding validate_items_def spec_problems_def reported_def Let_def
        missing_items_eq non_unique_ids_eq
      by simp
  next
    case no_missing: True
    show ?thesis
    proof (cases "{i \<in> set items. count_list items i > 1} = {}")
      case False
      with nonempty no_missing show ?thesis
        unfolding validate_items_def spec_problems_def reported_def Let_def
          missing_items_eq non_unique_ids_eq
        by simp
    next
      case True
      with nonempty no_missing show ?thesis
        unfolding validate_items_def spec_problems_def reported_def Let_def
          missing_items_eq non_unique_ids_eq
        by simp
    qed
  qed
qed


theorem validate_items_first_problem_witness:
  "reported (validate_items [1, 1, 9] [1] ''ingredients'') = [ItemsMissing ''ingredients'' {9}] \<and>
   validate_items [1, 2] [1, 2, 3] ''ingredients'' = Inr ()"
proof -
  have b: "spec_problems [1, 1, 9] [1] ''ingredients'' =
     [ItemsMissing ''ingredients'' {9}, ItemsNotUnique ''ingredients'' {1}]"
    unfolding spec_problems_def cx_missing cx_dups by simp
  have c: "spec_problems [1, 2] [1, 2, 3] ''ingredients'' = []"
    unfolding spec_problems_def by auto
  show ?thesis
    using validate_items_first_problem [of "[1, 1, 9]" "[1]" "''ingredients''"]
      validate_items_first_problem [of "[1, 2]" "[1, 2, 3]" "''ingredients''"]
    unfolding b c by simp
qed

text \<open>
  The claim as stated fails on the ids \<open>[1, 1, 9]\<close> when storage holds the id \<open>1\<close> only:
  the list has an unknown id and a duplicated id, and the failure reports the unknown id
  alone.
\<close>

theorem validate_items_counterexample:
  "validate_items [1, 1, 9] [1] ''ingredients'' = Inl (ItemsMissing ''ingredients'' {9}) \<and>
   spec_problems [1, 1, 9] [1] ''ingredients'' =
     [ItemsMissing ''ingredients'' {9}, ItemsNotUnique ''ingredients'' {1}] \<and>
   reported (validate_items [1, 1, 9] [1] ''ingredients'') \<noteq>
     spec_problems [1, 1, 9] [1] ''ingredients''"
proof -
  have a: "validate_items [1, 1, 9] [1] ''ingredients'' = Inl (ItemsMissing ''ingredients'' {9})"
    unfolding validate_items_def Let_def missing_items_eq non_unique_ids_eq cx_missing by simp
  have b: "spec_problems [1, 1, 9] [1] ''ingredients'' =
     [ItemsMissing ''ingredients'' {9}, ItemsNotUnique ''ingredients'' {1}]"
    unfolding spec_problems_def cx_missing cx_dups by simp
  show ?thesis unfolding a b by (simp add: reported_def)
qed

section \<open>Username validation\<close>

lemma findall_runs_chars:
  "\<Union> (set ` set (findall_runs m cur s)) = set cur \<union> {c \<in> set s. m c}"
  by (induction s arbitrary: cur) auto

lemma findall_runs_nonempty:
  "(findall_runs m cur s \<noteq> []) = (cur \<noteq> [] \<or> (\<exists>c \<in> set s. m c))"
  by (induction s arbitrary: cur) auto

lemma findall_runs_run_nonempty:
  "r \<in> set (findall_runs m cur s) \<Longrightarrow> r \<noteq> []"
  by (induction s arbitrary: cur) (auto split: if_splits)

lemma ex_runs: "USERNAME_PATTERN_findall ascii_word ''a!b #c'' = [''!'', '' #'']"
  by code_simp

lemma ex_invalid: "\<not> allowed ascii_word (CHR ''!'')"
  by code_simp

text \<open>
  Claim C3. A username with at least one character outside the allowed set fails
  validation, and the one failure names every offending character: the report is the set
  of the maximal runs of offending characters, no run is empty, and the characters that
  occur in the report are exactly the offending characters of the username. The whole
  validator \<open>validate_username\<close> fails too: with the same report, or, when the name is the
  reserved profile path, with the error of the reserved name, which is checked first.
\<close>

theorem validate_username_names_all_invalid:
  assumes "\<exists>c \<in> set uname. \<not> allowed is_word c"
  shows "\<exists>report.
           validate_username_characters is_word uname = Inl (InvalidCharacters report) \<and>
           \<Union> (set ` report) = {c \<in> set uname. \<not> allowed is_word c} \<and>
           [] \<notin> report \<and>
           validate_username is_word USER_PROFILE_URL uname =
             (if uname = USER_PROFILE_URL then Inl (ReservedUsername USER_PROFILE_URL)
              else Inl (InvalidCharacters report))"
proof -
  let ?runs = "USERNAME_PATTERN_findall is_word uname"
  have ne: "?runs \<noteq> []"
    using assms by (simp add: USERNAME_PATTERN_findall_def findall_runs_nonempty)
  have chars: "\<Union> (set ` set ?runs) = {c \<in> set uname. \<not> allowed is_word c}"
    by (simp add: USERNAME_PATTERN_findall_def findall_runs_chars)
  have nonempty: "[] \<notin> set ?runs"
    using findall_runs_run_nonempty [of "[]"] by (auto simp: USERNAME_PATTERN_findall_def)
  have res: "validate_username_characters is_word uname = Inl (InvalidCharacters (set ?runs))"
    using ne by (simp add: validate_username_characters_def Let_def)
  have full: "validate_username is_word USER_PROFILE_URL uname =
             (if uname = USER_PROFILE_URL then Inl (ReservedUsername USER_PROFILE_URL)
              else Inl (InvalidCharacters (set ?runs)))"
    by (simp add: validate_username_def validate_reserved_username_def res)
  from res chars nonempty full show ?thesis by blast
qed


theorem validate_username_names_all_invalid_witness:
  "(\<exists>c \<in> set ''a!b #c''. \<not> allowed ascii_word c) \<and>
   validate_username ascii_word ''me'' ''a!b #c'' = Inl (InvalidCharacters {''!'', '' #''}) \<and>
   {c \<in> set ''a!b #c''. \<not> allowed ascii_word c} = {CHR ''!'', CHR '' '', CHR ''#''}"
proof -
  have h: "\<exists>c \<in> set ''a!b #c''. \<not> allowed ascii_word c"
    using ex_invalid by simp
  have r: "validate_username_characters ascii_word ''a!b #c'' = Inl (InvalidCharacters {''!'', '' #''})"
    by (simp add: validate_username_characters_def ex_runs)
  have ne: "''a!b #c'' \<noteq> ''me''"
    by simp
  obtain report where
    a: "validate_username_characters ascii_word ''a!b #c'' = Inl (InvalidCharacters report)" and
    b: "\<Union> (set ` report) = {c \<in> set ''a!b #c''. \<not> allowed ascii_word c}" and
    c: "validate_username ascii_word ''me'' ''a!b #c'' =
          (if ''a!b #c'' = ''me'' then Inl (ReservedUsername ''me'')
           else Inl (InvalidCharacters report))"
    using validate_username_names_all_invalid [OF h, of "''me''"] by blast
  from a r have rep: "report = {''!'', '' #''}"
    by simp
  have u: "\<Union> (set ` {''!'', '' #''}) = {CHR ''!'', CHR '' '', CHR ''#''}"
    by auto
  from c ne rep have v: "validate_username ascii_word ''me'' ''a!b #c'' = Inl (InvalidCharacters {''!'', '' #''})"
    by (simp only: if_False)
  from b rep u have w: "{c \<in> set ''a!b #c''. \<not> allowed ascii_word c} = {CHR ''!'', CHR '' '', CHR ''#''}"
    by (simp only:)
  from h v w show ?thesis by (intro conjI)
qed

section \<open>Recipe create and update\<close>

lemma no_repeat_distinct:
  "\<forall>x \<in> set xs. \<not> 1 < count_list xs x \<Longrightarrow> distinct xs"
proof (induction xs)
  case Nil
  then show ?case by simp
next
  case (Cons a xs)
  from Cons.prems have "\<not> 1 < count_list (a # xs) a" by simp
  then have "count_list xs a = 0" by simp
  then have a: "a \<notin> set xs" by (simp add: count_list_0_iff)
  have "\<forall>x \<in> set xs. \<not> 1 < count_list xs x"
  proof
    fix x assume x: "x \<in> set xs"
    with Cons.prems have "\<not> 1 < count_list (a # xs) x" by simp
    then show "\<not> 1 < count_list xs x" by (simp split: if_splits)
  qed
  with Cons.IH a show ?case by simp
qed

lemma validate_items_ok:
  assumes "validate_items items model_ids field_name = Inr ()"
  shows "items \<noteq> [] \<and> set items \<subseteq> set model_ids \<and> distinct items"
proof -
  from assms have ne: "items \<noteq> []"
    by (auto simp: validate_items_def)
  from assms ne have m: "set items - set (filter (\<lambda>i. i \<in> set items) model_ids) = {}"
    by (simp add: validate_items_def Let_def split: if_splits)
  from assms ne m have u: "set (filter (\<lambda>item. count_list items item > 1) items) = {}"
    by (simp add: validate_items_def Let_def split: if_splits)
  from m have sub: "set items \<subseteq> set model_ids" by auto
  from u have "\<forall>x \<in> set items. \<not> 1 < count_list items x" by auto
  then have "distinct items" by (rule no_repeat_distinct)
  with ne sub show ?thesis by simp
qed

lemma validate_ok:
  assumes "validate (Some ings) d = Inr ()"
  shows "ings \<noteq> [] \<and> set (map item_id ings) \<subseteq> set (map ingredient_id (ingredients d)) \<and>
         distinct (map item_id ings)"
proof -
  from assms have ne: "ings \<noteq> []"
    by (auto simp: validate_def)
  with assms have "validate_items (map item_id ings) (map ingredient_id (ingredients d))
      ''ingredients'' = Inr ()"
    by (simp add: validate_def)
  from validate_items_ok [OF this] ne show ?thesis by simp
qed

lemma set_ingredients_ok:
  assumes d: "distinct (map item_id items)"
    and fk: "set (map item_id items) \<subseteq> set (map ingredient_id (ingredients d))"
    and fresh: "recipe_id r \<notin> set (map ri_recipe (recipe_ingredients d))"
    and st: "\<forall>i \<in> set items. storable (item_amount i)"
  shows "set_ingredients storable r items d =
           Inr (d\<lparr>recipe_ingredients := recipe_ingredients d @
                  map (\<lambda>i. \<lparr>ri_recipe = recipe_id r, ri_ingredient = item_id i,
                             amount = item_amount i\<rparr>) items\<rparr>)"
proof -
  let ?rows = "map (\<lambda>i. \<lparr>ri_recipe = recipe_id r, ri_ingredient = item_id i,
                             amount = item_amount i\<rparr>) items"
  have z: "filter (\<lambda>x. \<not> storable (amount x)) ?rows = []"
    using st by (auto simp: filter_empty_conv)
  have a: "distinct (map (\<lambda>x. (ri_recipe x, ri_ingredient x)) ?rows)"
    using d by (simp add: distinct_map inj_on_def comp_def)
  have b: "filter (\<lambda>x. (ri_recipe x, ri_ingredient x) \<in>
                       set (map (\<lambda>y. (ri_recipe y, ri_ingredient y)) (recipe_ingredients d)))
           ?rows = []"
    using fresh by (auto simp: filter_empty_conv)
  have c: "filter (\<lambda>x. ri_ingredient x \<notin> set (map ingredient_id (ingredients d))) ?rows = []"
    using fk by (auto simp: filter_empty_conv)
  show ?thesis
    unfolding set_ingredients_def RecipeIngredient_bulk_create_def
    using z a b c by (simp only: simp_thms if_True if_False)
qed

lemma set_ingredients_fail:
  assumes "\<not> (\<forall>i \<in> set items. storable (item_amount i))"
  shows "set_ingredients storable r items d = Inl DataError"
proof -
  let ?rows = "map (\<lambda>i. \<lparr>ri_recipe = recipe_id r, ri_ingredient = item_id i,
                             amount = item_amount i\<rparr>) items"
  have "filter (\<lambda>x. \<not> storable (amount x)) ?rows \<noteq> []"
    using assms by (auto simp: filter_empty_conv)
  then show ?thesis
    unfolding set_ingredients_def RecipeIngredient_bulk_create_def
    by (simp only: simp_thms if_True)
qed

lemma recipe_conflict_iff:
  "recipe_conflict r d =
     (author r \<noteq> None \<and>
      (\<exists>x \<in> set (recipes d). recipe_id x \<noteq> recipe_id r \<and> recipe_name x = recipe_name r \<and>
         author x = author r))"
  by (auto simp: recipe_conflict_def filter_empty_conv)

lemma Recipe_save_ok:
  assumes "\<not> recipe_conflict r d"
  shows "\<exists>rs. Recipe_save r d = Inr (d\<lparr>recipes := rs\<rparr>) \<and> r \<in> set rs \<and>
           {x \<in> set rs. recipe_id x \<noteq> recipe_id r} =
           {x \<in> set (recipes d). recipe_id x \<noteq> recipe_id r}"
proof (cases "filter (\<lambda>x. recipe_id x = recipe_id r) (recipes d) = []")
  case True
  then have "\<forall>x \<in> set (recipes d). recipe_id x \<noteq> recipe_id r"
    by (simp add: filter_empty_conv)
  with True assms show ?thesis
    by (auto simp: Recipe_save_def)
next
  case False
  then obtain y where y: "y \<in> set (recipes d)" "recipe_id y = recipe_id r"
    by (auto simp: filter_empty_conv)
  let ?rs = "map (\<lambda>x. if recipe_id x = recipe_id r then r else x) (recipes d)"
  have s: "Recipe_save r d = Inr (d\<lparr>recipes := ?rs\<rparr>)"
    using False assms by (simp add: Recipe_save_def)
  have m: "r \<in> set ?rs"
    using y by force
  have k: "{x \<in> set ?rs. recipe_id x \<noteq> recipe_id r} =
           {x \<in> set (recipes d). recipe_id x \<noteq> recipe_id r}"
    by (auto split: if_splits)
  from s m k show ?thesis by blast
qed

lemma Recipe_save_fail:
  "recipe_conflict r d \<Longrightarrow> Recipe_save r d = Inl IntegrityError"
  by (simp add: Recipe_save_def)

lemma recipe_conflict_same_others:
  assumes "{x \<in> set (recipes d'). recipe_id x \<noteq> recipe_id r} =
           {x \<in> set (recipes d). recipe_id x \<noteq> recipe_id r}"
  shows "recipe_conflict r d' = recipe_conflict r d"
proof -
  have "(\<exists>x \<in> set (recipes d'). recipe_id x \<noteq> recipe_id r \<and> recipe_name x = recipe_name r \<and>
         author x = author r) =
        (\<exists>x \<in> {x \<in> set (recipes d'). recipe_id x \<noteq> recipe_id r}. recipe_name x = recipe_name r \<and>
         author x = author r)"
    by auto
  also have "\<dots> = (\<exists>x \<in> {x \<in> set (recipes d). recipe_id x \<noteq> recipe_id r}. recipe_name x = recipe_name r \<and>
         author x = author r)"
    by (simp only: assms)
  also have "\<dots> = (\<exists>x \<in> set (recipes d). recipe_id x \<noteq> recipe_id r \<and> recipe_name x = recipe_name r \<and>
         author x = author r)"
    by auto
  finally show ?thesis
    by (simp add: recipe_conflict_iff)
qed

lemma set_attrs_id [simp]: "recipe_id (set_attrs r v) = recipe_id r"
  by (simp add: set_attrs_def)

lemma new_rows_filter:
  "filter (\<lambda>x. ri_recipe x = rid)
     (filter (\<lambda>x. ri_recipe x \<noteq> rid) rows @
      map (\<lambda>i. \<lparr>ri_recipe = rid, ri_ingredient = item_id i, amount = item_amount i\<rparr>) items) =
   map (\<lambda>i. \<lparr>ri_recipe = rid, ri_ingredient = item_id i, amount = item_amount i\<rparr>) items"
  by (induction items) (auto simp: filter_empty_conv)

lemma cleared_rows_filter:
  "filter (\<lambda>x. ri_recipe x = rid) (filter (\<lambda>x. ri_recipe x \<noteq> rid) rows) = []"
  by (auto simp: filter_empty_conv)

lemma cleared_other_rows_filter:
  "rid' \<noteq> rid \<Longrightarrow>
   filter (\<lambda>x. ri_recipe x = rid') (filter (\<lambda>x. ri_recipe x \<noteq> rid) rows) =
   filter (\<lambda>x. ri_recipe x = rid') rows"
  by (auto intro: filter_cong)

lemma other_rows_filter:
  "rid' \<noteq> rid \<Longrightarrow>
   filter (\<lambda>x. ri_recipe x = rid')
     (filter (\<lambda>x. ri_recipe x \<noteq> rid) rows @
      map (\<lambda>i. \<lparr>ri_recipe = rid, ri_ingredient = item_id i, amount = item_amount i\<rparr>) items) =
   filter (\<lambda>x. ri_recipe x = rid') rows"
proof -
  assume n: "rid' \<noteq> rid"
  have a: "filter (\<lambda>x. ri_recipe x = rid')
      (map (\<lambda>i. \<lparr>ri_recipe = rid, ri_ingredient = item_id i, amount = item_amount i\<rparr>) items) = []"
    using n by (auto simp: filter_empty_conv)
  show ?thesis
    by (simp only: filter_append a cleared_other_rows_filter [OF n] append_Nil2)
qed

text \<open>
  The three ways in which an update ends whose ingredient list passed validation and
  whose first save succeeds: at the insert of the ingredient rows, when an amount cannot
  be stored, the old rows of the recipe being deleted already; at the last save, when
  the new scalar fields break \<open>unique_recipe_title_author\<close>, the new rows being stored
  already; or with success.
\<close>

lemma update_cases:
  assumes valid: "validate (Some (ud_ingredients v)) d = Inr ()"
    and ok: "\<not> recipe_conflict instance d"
  shows "\<exists>rs. instance \<in> set rs \<and>
     (\<not> (\<forall>i \<in> set (ud_ingredients v). storable (item_amount i)) \<longrightarrow>
        update storable instance v d =
          (Inl DataError,
           d\<lparr>recipes := rs,
             recipe_ingredients :=
               filter (\<lambda>x. ri_recipe x \<noteq> recipe_id instance) (recipe_ingredients d)\<rparr>)) \<and>
     ((\<forall>i \<in> set (ud_ingredients v). storable (item_amount i)) \<and>
      recipe_conflict (set_attrs instance v) d \<longrightarrow>
        update storable instance v d =
          (Inl IntegrityError,
           d\<lparr>recipes := rs,
             recipe_ingredients :=
               filter (\<lambda>x. ri_recipe x \<noteq> recipe_id instance) (recipe_ingredients d) @
               map (\<lambda>i. \<lparr>ri_recipe = recipe_id instance, ri_ingredient = item_id i,
                          amount = item_amount i\<rparr>) (ud_ingredients v)\<rparr>)) \<and>
     ((\<forall>i \<in> set (ud_ingredients v). storable (item_amount i)) \<and>
      \<not> recipe_conflict (set_attrs instance v) d \<longrightarrow>
        (\<exists>rs'. set_attrs instance v \<in> set rs' \<and>
           update storable instance v d =
             (Inr (set_attrs instance v),
              d\<lparr>recipes := rs',
                recipe_ingredients :=
                  filter (\<lambda>x. ri_recipe x \<noteq> recipe_id instance) (recipe_ingredients d) @
                  map (\<lambda>i. \<lparr>ri_recipe = recipe_id instance, ri_ingredient = item_id i,
                             amount = item_amount i\<rparr>) (ud_ingredients v)\<rparr>)))"
proof -
  let ?cleared = "filter (\<lambda>x. ri_recipe x \<noteq> recipe_id instance) (recipe_ingredients d)"
  let ?new = "map (\<lambda>i. \<lparr>ri_recipe = recipe_id instance, ri_ingredient = item_id i,
                         amount = item_amount i\<rparr>) (ud_ingredients v)"
  let ?r = "set_attrs instance v"
  from Recipe_save_ok [OF ok] obtain rs where
    s: "Recipe_save instance d = Inr (d\<lparr>recipes := rs\<rparr>)" and
    m: "instance \<in> set rs" and
    k: "{x \<in> set rs. recipe_id x \<noteq> recipe_id instance} =
        {x \<in> set (recipes d). recipe_id x \<noteq> recipe_id instance}"
    by blast
  let ?d2 = "d\<lparr>recipes := rs, recipe_ingredients := ?cleared\<rparr>"
  let ?d3 = "d\<lparr>recipes := rs, recipe_ingredients := ?cleared @ ?new\<rparr>"
  have c: "ingredients_clear instance (d\<lparr>recipes := rs\<rparr>) = ?d2"
    by (simp add: ingredients_clear_def)
  have fail: "update storable instance v d = (Inl DataError, ?d2)"
    if n: "\<not> (\<forall>i \<in> set (ud_ingredients v). storable (item_amount i))"
  proof -
    have si: "set_ingredients storable instance (ud_ingredients v) ?d2 = Inl DataError"
      using n by (rule set_ingredients_fail)
    show ?thesis
      unfolding update_def s Let_def sum.case c si ..
  qed
  have si: "set_ingredients storable instance (ud_ingredients v) ?d2 = Inr ?d3"
    if st: "\<forall>i \<in> set (ud_ingredients v). storable (item_amount i)"
  proof -
    from validate_ok [OF valid] have
      dist: "distinct (map item_id (ud_ingredients v))" and
      fk: "set (map item_id (ud_ingredients v)) \<subseteq> set (map ingredient_id (ingredients ?d2))"
      by simp_all
    have fresh: "recipe_id instance \<notin> set (map ri_recipe (recipe_ingredients ?d2))"
      by auto
    from set_ingredients_ok [OF dist fk fresh st] show ?thesis
      by simp
  qed
  have "{x \<in> set (recipes ?d3). recipe_id x \<noteq> recipe_id ?r} =
        {x \<in> set (recipes d). recipe_id x \<noteq> recipe_id ?r}"
    using k by simp
  then have same: "recipe_conflict ?r ?d3 = recipe_conflict ?r d"
    by (rule recipe_conflict_same_others)
  have late: "update storable instance v d = (Inl IntegrityError, ?d3)"
    if st: "\<forall>i \<in> set (ud_ingredients v). storable (item_amount i)"
      and cf: "recipe_conflict ?r d"
  proof -
    from cf same have "Recipe_save ?r ?d3 = Inl IntegrityError"
      by (simp add: Recipe_save_fail)
    then show ?thesis
      unfolding update_def s Let_def sum.case c si [OF st] by simp
  qed
  have good: "\<exists>rs'. ?r \<in> set rs' \<and>
      update storable instance v d =
        (Inr ?r, d\<lparr>recipes := rs', recipe_ingredients := ?cleared @ ?new\<rparr>)"
    if st: "\<forall>i \<in> set (ud_ingredients v). storable (item_amount i)"
      and cf: "\<not> recipe_conflict ?r d"
  proof -
    from cf same have "\<not> recipe_conflict ?r ?d3"
      by simp
    from Recipe_save_ok [OF this] obtain rs' where
      s': "Recipe_save ?r ?d3 = Inr (?d3\<lparr>recipes := rs'\<rparr>)" and m': "?r \<in> set rs'"
      by blast
    have "update storable instance v d = (Inr ?r, ?d3\<lparr>recipes := rs'\<rparr>)"
      unfolding update_def s Let_def sum.case c si [OF st] s' ..
    then have "update storable instance v d =
        (Inr ?r, d\<lparr>recipes := rs', recipe_ingredients := ?cleared @ ?new\<rparr>)"
      by simp
    with m' show ?thesis by blast
  qed
  from m fail late good show ?thesis
    by blast
qed

text \<open>
  Claim C5. An update whose ingredient list passed validation, of a recipe whose own row
  breaks no constraint, deletes every row of the recipe and inserts the new list in one
  insert. When the amounts of the list can be stored, the recipe has exactly the rows of
  the new list afterwards, in the order of the list, each with its amount: every earlier
  row is gone, whether the last step, the save of the scalar fields, succeeds or not.
  When an amount cannot be stored the insert fails and the update ends there, the
  earlier rows being deleted: no row of the recipe is left. The rows of all other
  recipes are as they were in every case.
\<close>

theorem update_replaces_ingredients:
  assumes valid: "validate (Some (ud_ingredients v)) d = Inr ()"
    and ok: "\<not> recipe_conflict instance d"
  shows "((\<forall>i \<in> set (ud_ingredients v). storable (item_amount i)) \<longrightarrow>
            ingredient_rows (recipe_id instance) (snd (update storable instance v d)) =
              map (\<lambda>i. \<lparr>ri_recipe = recipe_id instance, ri_ingredient = item_id i,
                         amount = item_amount i\<rparr>) (ud_ingredients v)) \<and>
         (\<not> (\<forall>i \<in> set (ud_ingredients v). storable (item_amount i)) \<longrightarrow>
            fst (update storable instance v d) = Inl DataError \<and>
            ingredient_rows (recipe_id instance) (snd (update storable instance v d)) = []) \<and>
         (\<forall>rid. rid \<noteq> recipe_id instance \<longrightarrow>
            ingredient_rows rid (snd (update storable instance v d)) = ingredient_rows rid d)"
proof -
  let ?cleared = "filter (\<lambda>x. ri_recipe x \<noteq> recipe_id instance) (recipe_ingredients d)"
  let ?new = "map (\<lambda>i. \<lparr>ri_recipe = recipe_id instance, ri_ingredient = item_id i,
                         amount = item_amount i\<rparr>) (ud_ingredients v)"
  let ?st = "\<forall>i \<in> set (ud_ingredients v). storable (item_amount i)"
  let ?U = "update storable instance v d"
  from update_cases [OF valid ok, where storable = storable] obtain rs where
    f: "\<not> ?st \<longrightarrow> ?U = (Inl DataError, d\<lparr>recipes := rs, recipe_ingredients := ?cleared\<rparr>)" and
    l: "?st \<and> recipe_conflict (set_attrs instance v) d \<longrightarrow>
          ?U = (Inl IntegrityError, d\<lparr>recipes := rs, recipe_ingredients := ?cleared @ ?new\<rparr>)" and
    g: "?st \<and> \<not> recipe_conflict (set_attrs instance v) d \<longrightarrow>
          (\<exists>rs'. set_attrs instance v \<in> set rs' \<and>
             ?U = (Inr (set_attrs instance v),
                   d\<lparr>recipes := rs', recipe_ingredients := ?cleared @ ?new\<rparr>))"
    by blast
  have rows_st: "recipe_ingredients (snd ?U) = ?cleared @ ?new" if st: ?st
  proof (cases "recipe_conflict (set_attrs instance v) d")
    case True
    with l st show ?thesis by simp
  next
    case False
    with g st obtain rs' where
      "?U = (Inr (set_attrs instance v),
             d\<lparr>recipes := rs', recipe_ingredients := ?cleared @ ?new\<rparr>)"
      by blast
    then show ?thesis by simp
  qed
  have rows_nst: "recipe_ingredients (snd ?U) = ?cleared" and err: "fst ?U = Inl DataError"
    if n: "\<not> ?st"
    using f n by simp_all
  have one: "?st \<longrightarrow> ingredient_rows (recipe_id instance) (snd ?U) = ?new"
  proof
    assume st: ?st
    show "ingredient_rows (recipe_id instance) (snd ?U) = ?new"
      unfolding ingredient_rows_def rows_st [OF st] by (rule new_rows_filter)
  qed
  have none: "\<not> ?st \<longrightarrow> fst ?U = Inl DataError \<and> ingredient_rows (recipe_id instance) (snd ?U) = []"
  proof
    assume n: "\<not> ?st"
    have "ingredient_rows (recipe_id instance) (snd ?U) = []"
      unfolding ingredient_rows_def rows_nst [OF n] by (rule cleared_rows_filter)
    with err [OF n]
    show "fst ?U = Inl DataError \<and> ingredient_rows (recipe_id instance) (snd ?U) = []"
      by simp
  qed
  have others: "ingredient_rows rid (snd ?U) = ingredient_rows rid d"
    if r: "rid \<noteq> recipe_id instance" for rid
  proof (cases ?st)
    case True
    show ?thesis
      unfolding ingredient_rows_def rows_st [OF True] using r by (rule other_rows_filter)
  next
    case False
    show ?thesis
      unfolding ingredient_rows_def rows_nst [OF False] using r
      by (rule cleared_other_rows_filter)
  qed
  from one none others show ?thesis by blast
qed

theorem update_replaces_ingredients_witness:
  "validate (Some (ud_ingredients sugar_only)) one_ingredient_db = Inr () \<and>
   validate (Some (ud_ingredients too_much_sugar)) one_ingredient_db = Inr () \<and>
   \<not> recipe_conflict recipe_A one_ingredient_db \<and>
   int32 2 \<and> \<not> int32 (2 ^ 31) \<and>
   ingredient_rows 1 one_ingredient_db = [\<lparr>ri_recipe = 1, ri_ingredient = 1, amount = 1\<rparr>] \<and>
   ingredient_rows 1 (snd (update int32 recipe_A sugar_only one_ingredient_db)) =
     [\<lparr>ri_recipe = 1, ri_ingredient = 2, amount = 2\<rparr>] \<and>
   fst (update int32 recipe_A too_much_sugar one_ingredient_db) = Inl DataError \<and>
   ingredient_rows 1 (snd (update int32 recipe_A too_much_sugar one_ingredient_db)) = []"
proof -
  have v: "validate (Some (ud_ingredients sugar_only)) one_ingredient_db = Inr ()"
    by code_simp
  have v': "validate (Some (ud_ingredients too_much_sugar)) one_ingredient_db = Inr ()"
    by code_simp
  have c: "\<not> recipe_conflict recipe_A one_ingredient_db"
    by code_simp
  have s: "int32 2" "\<not> int32 (2 ^ 31)"
    by (simp_all add: int32_def)
  have b: "ingredient_rows 1 one_ingredient_db = [\<lparr>ri_recipe = 1, ri_ingredient = 1, amount = 1\<rparr>]"
    by (simp add: ingredient_rows_def one_ingredient_db_def)
  have i: "recipe_id recipe_A = 1"
    by (simp add: recipe_A_def)
  have j: "ud_ingredients sugar_only = [\<lparr>item_id = 2, item_amount = 2\<rparr>]"
    "ud_ingredients too_much_sugar = [\<lparr>item_id = 2, item_amount = 2 ^ 31\<rparr>]"
    by (simp_all add: sugar_only_def too_much_sugar_def)
  have st: "\<forall>i \<in> set (ud_ingredients sugar_only). int32 (item_amount i)"
    using s by (simp add: j)
  have nst: "\<not> (\<forall>i \<in> set (ud_ingredients too_much_sugar). int32 (item_amount i))"
    using s by (simp add: j)
  from update_replaces_ingredients [where storable = int32, OF v c] st
  have "ingredient_rows (recipe_id recipe_A) (snd (update int32 recipe_A sugar_only one_ingredient_db)) =
     map (\<lambda>i. \<lparr>ri_recipe = recipe_id recipe_A, ri_ingredient = item_id i,
                amount = item_amount i\<rparr>) (ud_ingredients sugar_only)"
    by blast
  then have r1: "ingredient_rows 1 (snd (update int32 recipe_A sugar_only one_ingredient_db)) =
     [\<lparr>ri_recipe = 1, ri_ingredient = 2, amount = 2\<rparr>]"
    by (simp add: i j)
  from update_replaces_ingredients [where storable = int32, OF v' c] nst
  have "fst (update int32 recipe_A too_much_sugar one_ingredient_db) = Inl DataError \<and>
     ingredient_rows (recipe_id recipe_A)
       (snd (update int32 recipe_A too_much_sugar one_ingredient_db)) = []"
    by blast
  then have r2: "fst (update int32 recipe_A too_much_sugar one_ingredient_db) = Inl DataError"
    "ingredient_rows 1 (snd (update int32 recipe_A too_much_sugar one_ingredient_db)) = []"
    by (simp_all add: i)
  from v v' c s b r1 r2 show ?thesis by blast
qed

lemma fold_max_ge: "a \<le> fold max ids (a::nat)"
proof (induction ids arbitrary: a)
  case Nil
  show ?case by simp
next
  case (Cons x ids)
  have "a \<le> max x a" by simp
  also have "\<dots> \<le> fold max ids (max x a)" by (rule Cons.IH)
  finally show ?case by simp
qed

lemma fold_max_upper: "x \<in> set ids \<Longrightarrow> x \<le> fold max ids (a::nat)"
proof (induction ids arbitrary: a)
  case Nil
  then show ?case by simp
next
  case (Cons y ids)
  show ?case
  proof (cases "x = y")
    case True
    have "x \<le> max y a" using True by simp
    also have "\<dots> \<le> fold max ids (max y a)" by (rule fold_max_ge)
    finally show ?thesis by simp
  next
    case False
    with Cons.prems have "x \<in> set ids" by simp
    from Cons.IH [OF this] show ?thesis by simp
  qed
qed

lemma next_id_fresh: "next_id ids \<notin> set ids"
proof
  assume "next_id ids \<in> set ids"
  from fold_max_upper [OF this, of 0] show False
    by (simp add: next_id_def)
qed

text \<open>
  The three ways in which a create ends whose ingredient list passed validation: at its
  first write, the insert of the recipe, when a recipe of this name and author exists;
  at the insert of the ingredient rows, when an amount cannot be stored, the recipe row
  being stored already; or with success.
\<close>

lemma create_cases:
  assumes valid: "validate (Some (vd_ingredients v)) d = Inr ()"
    and fk: "recipe_ingredient_recipe_fk d"
    and au: "req_user rq = AuthUser a"
  shows "\<exists>r. recipe_id r \<notin> set (map recipe_id (recipes d)) \<and>
           recipe_name r = vd_name v \<and> author r = Some a \<and>
           create storable now rq v d =
             (if recipe_conflict r d then (Inl IntegrityError, d)
              else if \<forall>i \<in> set (vd_ingredients v). storable (item_amount i)
              then (Inr r,
                    d\<lparr>recipes := recipes d @ [r],
                      recipe_ingredients := recipe_ingredients d @
                        map (\<lambda>i. \<lparr>ri_recipe = recipe_id r, ri_ingredient = item_id i,
                                   amount = item_amount i\<rparr>) (vd_ingredients v)\<rparr>)
              else (Inl DataError, d\<lparr>recipes := recipes d @ [r]\<rparr>))"
proof -
  let ?r = "\<lparr>recipe_id = next_id (map recipe_id (recipes d)),
             recipe_name = vd_name v,
             author = Some a,
             recipe_text = vd_text v,
             image = vd_image v,
             cooking_time = vd_cooking_time v,
             pub_date = now\<rparr>"
  let ?d1 = "d\<lparr>recipes := recipes d @ [?r]\<rparr>"
  let ?st = "\<forall>i \<in> set (vd_ingredients v). storable (item_amount i)"
  have new: "recipe_id ?r \<notin> set (map recipe_id (recipes d))"
    using next_id_fresh [of "map recipe_id (recipes d)"] by simp
  have "create storable now rq v d =
             (if recipe_conflict ?r d then (Inl IntegrityError, d)
              else if ?st
              then (Inr ?r,
                    d\<lparr>recipes := recipes d @ [?r],
                      recipe_ingredients := recipe_ingredients d @
                        map (\<lambda>i. \<lparr>ri_recipe = recipe_id ?r, ri_ingredient = item_id i,
                                   amount = item_amount i\<rparr>) (vd_ingredients v)\<rparr>)
              else (Inl DataError, ?d1))"
  proof (cases "recipe_conflict ?r d")
    case True
    then have "Recipe_objects_create now a v d = Inl IntegrityError"
      by (simp add: Recipe_objects_create_def Let_def)
    then have eq: "create storable now rq v d = (Inl IntegrityError, d)"
      by (simp add: create_def au)
    show ?thesis
      by (simp only: if_P [OF True] eq)
  next
    case False
    from False have oc: "Recipe_objects_create now a v d = Inr (?r, ?d1)"
      by (simp add: Recipe_objects_create_def Let_def)
    show ?thesis
    proof (cases ?st)
      case True
      from validate_ok [OF valid] have
        dist: "distinct (map item_id (vd_ingredients v))" and
        ing: "set (map item_id (vd_ingredients v)) \<subseteq> set (map ingredient_id (ingredients ?d1))"
        by simp_all
      have fresh: "recipe_id ?r \<notin> set (map ri_recipe (recipe_ingredients ?d1))"
        using new fk by (auto simp: recipe_ingredient_recipe_fk_def)
      from set_ingredients_ok [OF dist ing fresh True]
      have si: "set_ingredients storable ?r (vd_ingredients v) ?d1 =
        Inr (d\<lparr>recipes := recipes d @ [?r],
               recipe_ingredients := recipe_ingredients d @
                 map (\<lambda>i. \<lparr>ri_recipe = recipe_id ?r, ri_ingredient = item_id i,
                            amount = item_amount i\<rparr>) (vd_ingredients v)\<rparr>)"
        by simp
      have eq: "create storable now rq v d =
              (Inr ?r,
               d\<lparr>recipes := recipes d @ [?r],
                 recipe_ingredients := recipe_ingredients d @
                   map (\<lambda>i. \<lparr>ri_recipe = recipe_id ?r, ri_ingredient = item_id i,
                              amount = item_amount i\<rparr>) (vd_ingredients v)\<rparr>)"
        unfolding create_def au request_user.case oc sum.case prod.case si ..
      show ?thesis
        by (simp only: if_not_P [OF False] if_P [OF True] eq)
    next
      case n: False
      have si: "set_ingredients storable ?r (vd_ingredients v) ?d1 = Inl DataError"
        using n by (rule set_ingredients_fail)
      have eq: "create storable now rq v d = (Inl DataError, ?d1)"
        unfolding create_def au request_user.case oc sum.case prod.case si ..
      show ?thesis
        by (simp only: if_not_P [OF False] if_not_P [OF n] eq)
    qed
  qed
  moreover have "recipe_name ?r = vd_name v" "author ?r = Some a"
    by simp_all
  ultimately show ?thesis using new by blast
qed

text \<open>
  Claim C6, as the code has it. Neither operation opens a transaction: each write is in
  effect when it is made, and a failure at a later step does not undo it. For an
  ingredient list that passed validation this gives three ends to each operation.

  A create (in a database where every recipe ingredient belongs to a stored recipe)
  fails at its first write, when a recipe of this name and author exists, and leaves the
  database as it was; or it stores the recipe row, with a fresh id, together with the
  complete ingredient list, when every amount can be stored; or it fails at the insert
  of the ingredient rows, an amount being out of the range of the column, and leaves the
  recipe row stored without any ingredient row.

  An update (of a recipe whose own row breaks no constraint) fails at the insert of the
  ingredient rows when an amount cannot be stored, and leaves the recipe without
  ingredient rows, the scalar fields as they were; or it fails at the last save, when
  the new scalar fields break the unique constraint on name and author, and leaves the
  complete new ingredient list stored with the scalar fields as they were; or it stores
  the new scalar fields and the complete new ingredient list.
\<close>

theorem create_update_persist:
  "(validate (Some (vd_ingredients v)) d = Inr () \<and> recipe_ingredient_recipe_fk d \<and>
      req_user rq = AuthUser a \<longrightarrow>
    (\<exists>r. recipe_id r \<notin> set (map recipe_id (recipes d)) \<and>
       recipe_name r = vd_name v \<and> author r = Some a \<and>
       create storable now rq v d =
         (if recipe_conflict r d then (Inl IntegrityError, d)
          else if \<forall>i \<in> set (vd_ingredients v). storable (item_amount i)
          then (Inr r,
                d\<lparr>recipes := recipes d @ [r],
                  recipe_ingredients := recipe_ingredients d @
                    map (\<lambda>i. \<lparr>ri_recipe = recipe_id r, ri_ingredient = item_id i,
                               amount = item_amount i\<rparr>) (vd_ingredients v)\<rparr>)
          else (Inl DataError, d\<lparr>recipes := recipes d @ [r]\<rparr>)))) \<and>
   (validate (Some (ud_ingredients w)) d = Inr () \<and> \<not> recipe_conflict instance d \<longrightarrow>
    (if \<not> (\<forall>i \<in> set (ud_ingredients w). storable (item_amount i))
     then fst (update storable instance w d) = Inl DataError \<and>
          ingredient_rows (recipe_id instance) (snd (update storable instance w d)) = [] \<and>
          instance \<in> set (recipes (snd (update storable instance w d)))
     else if recipe_conflict (set_attrs instance w) d
     then fst (update storable instance w d) = Inl IntegrityError \<and>
          ingredient_rows (recipe_id instance) (snd (update storable instance w d)) =
            map (\<lambda>i. \<lparr>ri_recipe = recipe_id instance, ri_ingredient = item_id i,
                       amount = item_amount i\<rparr>) (ud_ingredients w) \<and>
          instance \<in> set (recipes (snd (update storable instance w d)))
     else fst (update storable instance w d) = Inr (set_attrs instance w) \<and>
          ingredient_rows (recipe_id instance) (snd (update storable instance w d)) =
            map (\<lambda>i. \<lparr>ri_recipe = recipe_id instance, ri_ingredient = item_id i,
                       amount = item_amount i\<rparr>) (ud_ingredients w) \<and>
          set_attrs instance w \<in> set (recipes (snd (update storable instance w d)))))"
proof -
  let ?cleared = "filter (\<lambda>x. ri_recipe x \<noteq> recipe_id instance) (recipe_ingredients d)"
  let ?new = "map (\<lambda>i. \<lparr>ri_recipe = recipe_id instance, ri_ingredient = item_id i,
                         amount = item_amount i\<rparr>) (ud_ingredients w)"
  let ?st = "\<forall>i \<in> set (ud_ingredients w). storable (item_amount i)"
  let ?cf = "recipe_conflict (set_attrs instance w) d"
  let ?U = "update storable instance w d"
  have cr: "\<exists>r. recipe_id r \<notin> set (map recipe_id (recipes d)) \<and>
       recipe_name r = vd_name v \<and> author r = Some a \<and>
       create storable now rq v d =
         (if recipe_conflict r d then (Inl IntegrityError, d)
          else if \<forall>i \<in> set (vd_ingredients v). storable (item_amount i)
          then (Inr r,
                d\<lparr>recipes := recipes d @ [r],
                  recipe_ingredients := recipe_ingredients d @
                    map (\<lambda>i. \<lparr>ri_recipe = recipe_id r, ri_ingredient = item_id i,
                               amount = item_amount i\<rparr>) (vd_ingredients v)\<rparr>)
          else (Inl DataError, d\<lparr>recipes := recipes d @ [r]\<rparr>))"
    if "validate (Some (vd_ingredients v)) d = Inr ()" "recipe_ingredient_recipe_fk d"
      "req_user rq = AuthUser a"
    using that by (rule create_cases)
  have up: "if \<not> ?st
     then fst ?U = Inl DataError \<and> ingredient_rows (recipe_id instance) (snd ?U) = [] \<and>
          instance \<in> set (recipes (snd ?U))
     else if ?cf
     then fst ?U = Inl IntegrityError \<and> ingredient_rows (recipe_id instance) (snd ?U) = ?new \<and>
          instance \<in> set (recipes (snd ?U))
     else fst ?U = Inr (set_attrs instance w) \<and>
          ingredient_rows (recipe_id instance) (snd ?U) = ?new \<and>
          set_attrs instance w \<in> set (recipes (snd ?U))"
    if valid: "validate (Some (ud_ingredients w)) d = Inr ()"
      and ok: "\<not> recipe_conflict instance d"
  proof -
    from update_cases [OF valid ok, where storable = storable] obtain rs where
      m: "instance \<in> set rs" and
      f: "\<not> ?st \<longrightarrow> ?U = (Inl DataError, d\<lparr>recipes := rs, recipe_ingredients := ?cleared\<rparr>)" and
      l: "?st \<and> ?cf \<longrightarrow>
            ?U = (Inl IntegrityError, d\<lparr>recipes := rs, recipe_ingredients := ?cleared @ ?new\<rparr>)" and
      g: "?st \<and> \<not> ?cf \<longrightarrow>
            (\<exists>rs'. set_attrs instance w \<in> set rs' \<and>
               ?U = (Inr (set_attrs instance w),
                     d\<lparr>recipes := rs', recipe_ingredients := ?cleared @ ?new\<rparr>))"
      by blast
    show ?thesis
    proof (cases ?st)
      case n: False
      with f have u: "?U = (Inl DataError, d\<lparr>recipes := rs, recipe_ingredients := ?cleared\<rparr>)"
        by simp
      have "fst ?U = Inl DataError \<and> ingredient_rows (recipe_id instance) (snd ?U) = [] \<and>
          instance \<in> set (recipes (snd ?U))"
        unfolding u using m by (simp add: ingredient_rows_def cleared_rows_filter)
      then show ?thesis
        by (simp only: if_P [OF n])
    next
      case st: True
      then have nn: "\<not> \<not> ?st"
        by blast
      show ?thesis
      proof (cases ?cf)
        case True
        with l st have u: "?U = (Inl IntegrityError,
            d\<lparr>recipes := rs, recipe_ingredients := ?cleared @ ?new\<rparr>)"
          by simp
        have "fst ?U = Inl IntegrityError \<and>
            ingredient_rows (recipe_id instance) (snd ?U) = ?new \<and>
            instance \<in> set (recipes (snd ?U))"
          unfolding u using m by (simp add: ingredient_rows_def new_rows_filter)
        then show ?thesis
          by (simp only: if_not_P [OF nn] if_P [OF True])
      next
        case False
        with g st obtain rs' where m': "set_attrs instance w \<in> set rs'" and
          u: "?U = (Inr (set_attrs instance w),
                    d\<lparr>recipes := rs', recipe_ingredients := ?cleared @ ?new\<rparr>)"
          by blast
        have "fst ?U = Inr (set_attrs instance w) \<and>
            ingredient_rows (recipe_id instance) (snd ?U) = ?new \<and>
            set_attrs instance w \<in> set (recipes (snd ?U))"
          unfolding u using m' by (simp add: ingredient_rows_def new_rows_filter)
        then show ?thesis
          by (simp only: if_not_P [OF nn] if_not_P [OF False])
      qed
    qed
  qed
  from cr up show ?thesis by blast
qed

theorem create_update_persist_witness:
  "validate (Some (vd_ingredients recipe_D_data)) example_db = Inr () \<and>
   recipe_ingredient_recipe_fk example_db \<and>
   req_user post_as_alice = AuthUser 1 \<and>
   validate (Some (ud_ingredients sugar_only)) example_db = Inr () \<and>
   \<not> recipe_conflict recipe_A example_db \<and>
   (\<exists>r. recipe_name r = ''D'' \<and> author r = Some 1 \<and>
      create int32 3 post_as_alice recipe_D_data example_db =
        (Inl DataError, example_db\<lparr>recipes := recipes example_db @ [r]\<rparr>)) \<and>
   fst (create int32 3 post_as_alice recipe_C_data example_db) =
     Inr \<lparr>recipe_id = 3, recipe_name = ''C'', author = Some 1, recipe_text = ''c'',
          image = ''c.png'', cooking_time = 5, pub_date = 3\<rparr> \<and>
   ingredient_rows 3 (snd (create int32 3 post_as_alice recipe_C_data example_db)) =
     [\<lparr>ri_recipe = 3, ri_ingredient = 1, amount = 4\<rparr>,
      \<lparr>ri_recipe = 3, ri_ingredient = 2, amount = 6\<rparr>] \<and>
   fst (update int32 recipe_A sugar_only example_db) = Inr recipe_A \<and>
   ingredient_rows 1 (snd (update int32 recipe_A sugar_only example_db)) =
     [\<lparr>ri_recipe = 1, ri_ingredient = 2, amount = 2\<rparr>] \<and>
   recipe_A \<in> set (recipes (snd (update int32 recipe_A sugar_only example_db)))"
proof -
  have v: "validate (Some (vd_ingredients recipe_D_data)) example_db = Inr ()"
    by code_simp
  have k: "recipe_ingredient_recipe_fk example_db"
    by code_simp
  have u: "req_user post_as_alice = AuthUser 1"
    by (simp add: post_as_alice_def)
  have w: "validate (Some (ud_ingredients sugar_only)) example_db = Inr ()"
    by code_simp
  have c: "\<not> recipe_conflict recipe_A example_db"
    by code_simp
  have c1: "fst (create int32 3 post_as_alice recipe_C_data example_db) =
     Inr \<lparr>recipe_id = 3, recipe_name = ''C'', author = Some 1, recipe_text = ''c'',
          image = ''c.png'', cooking_time = 5, pub_date = 3\<rparr>"
    by code_simp
  have c2: "ingredient_rows 3 (snd (create int32 3 post_as_alice recipe_C_data example_db)) =
     [\<lparr>ri_recipe = 3, ri_ingredient = 1, amount = 4\<rparr>,
      \<lparr>ri_recipe = 3, ri_ingredient = 2, amount = 6\<rparr>]"
    by code_simp
  have i: "recipe_id recipe_A = 1"
    by (simp add: recipe_A_def)
  have j: "ud_ingredients sugar_only = [\<lparr>item_id = 2, item_amount = 2\<rparr>]"
    by (simp add: sugar_only_def)
  have a: "set_attrs recipe_A sugar_only = recipe_A"
    by (simp add: set_attrs_def sugar_only_def)
  have st: "\<forall>i \<in> set (ud_ingredients sugar_only). int32 (item_amount i)"
    by (simp add: j int32_def)
  have nst: "\<not> (\<forall>i \<in> set (vd_ingredients recipe_D_data). int32 (item_amount i))"
    by (simp add: recipe_D_data_def int32_def)
  have n: "vd_name recipe_D_data = ''D''"
    by (simp add: recipe_D_data_def)
  note t = create_update_persist [where v = recipe_D_data and d = example_db and
      rq = post_as_alice and a = 1 and now = 3 and storable = int32 and
      ?instance = recipe_A and w = sugar_only]
  from t v k u obtain r where
    r: "recipe_name r = vd_name recipe_D_data" "author r = Some 1" and
    cr: "create int32 3 post_as_alice recipe_D_data example_db =
         (if recipe_conflict r example_db then (Inl IntegrityError, example_db)
          else if \<forall>i \<in> set (vd_ingredients recipe_D_data). int32 (item_amount i)
          then (Inr r,
                example_db\<lparr>recipes := recipes example_db @ [r],
                  recipe_ingredients := recipe_ingredients example_db @
                    map (\<lambda>i. \<lparr>ri_recipe = recipe_id r, ri_ingredient = item_id i,
                               amount = item_amount i\<rparr>) (vd_ingredients recipe_D_data)\<rparr>)
          else (Inl DataError, example_db\<lparr>recipes := recipes example_db @ [r]\<rparr>))"
    by blast
  have nc: "\<not> recipe_conflict r example_db"
    using r n by (simp add: recipe_conflict_iff example_db_def recipe_A_def recipe_B_def)
  have "create int32 3 post_as_alice recipe_D_data example_db =
      (Inl DataError, example_db\<lparr>recipes := recipes example_db @ [r]\<rparr>)"
    by (simp only: cr if_not_P [OF nc] if_not_P [OF nst])
  with r n have d1: "\<exists>r. recipe_name r = ''D'' \<and> author r = Some 1 \<and>
      create int32 3 post_as_alice recipe_D_data example_db =
        (Inl DataError, example_db\<lparr>recipes := recipes example_db @ [r]\<rparr>)"
    by auto
  have nn: "\<not> \<not> (\<forall>i \<in> set (ud_ingredients sugar_only). int32 (item_amount i))"
    using st by blast
  note t2 = t [THEN conjunct2, THEN mp, OF conjI [OF w c]]
  have "fst (update int32 recipe_A sugar_only example_db) = Inr recipe_A \<and>
     ingredient_rows (recipe_id recipe_A) (snd (update int32 recipe_A sugar_only example_db)) =
       map (\<lambda>i. \<lparr>ri_recipe = recipe_id recipe_A, ri_ingredient = item_id i,
                  amount = item_amount i\<rparr>) (ud_ingredients sugar_only) \<and>
     recipe_A \<in> set (recipes (snd (update int32 recipe_A sugar_only example_db)))"
    using t2 unfolding if_not_P [OF nn] a if_not_P [OF c] .
  then have u1: "fst (update int32 recipe_A sugar_only example_db) = Inr recipe_A"
    and u2: "ingredient_rows 1 (snd (update int32 recipe_A sugar_only example_db)) =
     [\<lparr>ri_recipe = 1, ri_ingredient = 2, amount = 2\<rparr>]"
    and u3: "recipe_A \<in> set (recipes (snd (update int32 recipe_A sugar_only example_db)))"
    by (simp_all add: i j)
  from v k u w c d1 c1 c2 u1 u2 u3 show ?thesis by blast
qed

text \<open>
  The claim as stated fails for an update: renaming recipe B to the name of recipe A,
  of the same author, breaks the constraint \<open>unique_recipe_title_author\<close> at the last
  step, the save of the scalar fields. The update ends with \<open>IntegrityError\<close>, the row of
  recipe B keeps its old name, and the ingredient rows of recipe B have been replaced
  already: salt in amount 3 is gone, sugar in amount 5 is stored.
\<close>

theorem update_not_atomic_counterexample:
  "update int32 recipe_B rename_to_A example_db =
     (Inl IntegrityError,
      example_db\<lparr>recipe_ingredients :=
        [\<lparr>ri_recipe = 1, ri_ingredient = 1, amount = 2\<rparr>,
         \<lparr>ri_recipe = 2, ri_ingredient = 2, amount = 5\<rparr>]\<rparr>) \<and>
   ingredient_rows 2 example_db = [\<lparr>ri_recipe = 2, ri_ingredient = 1, amount = 3\<rparr>] \<and>
   recipe_B \<in> set (recipes example_db) \<and>
   set_attrs recipe_B rename_to_A \<noteq> recipe_B"
  by code_simp

section \<open>Relation toggles\<close>

lemma find_recipe_exists:
  "pk \<in> recipe_id ` set rs \<Longrightarrow> \<exists>r. find (\<lambda>x. recipe_id x = pk) rs = Some r \<and> recipe_id r = pk"
  by (induction rs) auto

lemma user_recipe_eq:
  "(ur_user x = u \<and> ur_recipe x = pk) = (x = \<lparr>ur_user = u, ur_recipe = pk\<rparr>)"
  by (cases x) auto

lemma subscription_eq:
  "(sub_user x = u \<and> sub_author x = a) = (x = \<lparr>sub_author = a, sub_user = u\<rparr>)"
  by (cases x) auto

lemma filter_eq_Nil_notin: "(filter (\<lambda>x. x = p) rows = []) = (p \<notin> set rows)"
  by (auto simp: filter_empty_conv)

lemma filter_neq_removeAll: "filter (\<lambda>x. \<not> x = p) rows = removeAll p rows"
  by (induction rows) auto

lemma objects_set_objects [simp]: "objects m (set_objects m rows d) = rows"
  by (cases m) (simp_all add: objects_def set_objects_def)

lemma recipes_set_objects [simp]: "recipes (set_objects m rows d) = recipes d"
  by (cases m) (simp_all add: set_objects_def)

lemma set_objects_same [simp]: "set_objects m (objects m d) d = d"
  by (cases m) (simp_all add: objects_def set_objects_def)

text \<open>The four cases of the toggle of favorites and shopping carts.\<close>

lemma toggle_cases:
  assumes au: "req_user rq = AuthUser u"
    and ex: "find (\<lambda>x. recipe_id x = pk) (recipes d) = Some r" "recipe_id r = pk"
  shows "shoppingcart_favorite_method rq pk m msg d =
    (if req_method rq = POST then
       (if \<lparr>ur_user = u, ur_recipe = pk\<rparr> \<in> set (objects m d)
        then (Inl (ValidationError RecipeAlreadyInList), d)
        else (Inr \<lparr>status = HTTP_201_CREATED, data = RecipeSummary (RecipeSummarySerializer r)\<rparr>,
              set_objects m (objects m d @ [\<lparr>ur_user = u, ur_recipe = pk\<rparr>]) d))
     else
       (if \<lparr>ur_user = u, ur_recipe = pk\<rparr> \<in> set (objects m d)
        then (Inr \<lparr>status = HTTP_204_NO_CONTENT, data = Delete msg\<rparr>,
              set_objects m (removeAll \<lparr>ur_user = u, ur_recipe = pk\<rparr> (objects m d)) d)
        else (Inr \<lparr>status = HTTP_400_BAD_REQUEST, data = Errors RecipeNotInList\<rparr>, d)))"
  unfolding shoppingcart_favorite_method_def au ex request_user.case option.case
    user_recipe_eq filter_eq_Nil_notin filter_neq_removeAll
  by simp

lemma SubscriptionDetailSerializer_ok:
  assumes "0 \<le> recipes_limit py_int ctx" and "recipes_limit py_int ctx \<le> max_limit"
  shows "\<exists>x. SubscriptionDetailSerializer py_int ctx a d = Inr x \<and> sd_id x = user_id a \<and>
             sd_is_subscribed x = get_is_subscribed ctx a d"
  using assms by (simp add: SubscriptionDetailSerializer_def get_recipes_def Let_def)

lemma subscribe_cases:
  assumes au: "req_user rq = AuthUser u"
    and ex: "find (\<lambda>x. user_id x = pk) (users d) = Some a" "user_id a = pk"
    and ne: "u \<noteq> pk"
  shows "subscribe py_int rq pk d =
    (if req_method rq = POST then
       (if \<lparr>sub_author = pk, sub_user = u\<rparr> \<in> set (subscriptions d)
        then (Inl (ValidationError AlreadySubscribed), d)
        else
          (case SubscriptionDetailSerializer py_int (Some rq) a
                  (d\<lparr>subscriptions := subscriptions d @ [\<lparr>sub_author = pk, sub_user = u\<rparr>]\<rparr>) of
             Inl e \<Rightarrow> Inl e
           | Inr x \<Rightarrow> Inr \<lparr>status = HTTP_201_CREATED, data = SubscriptionDetail x\<rparr>,
           d\<lparr>subscriptions := subscriptions d @ [\<lparr>sub_author = pk, sub_user = u\<rparr>]\<rparr>))
     else
       (if \<lparr>sub_author = pk, sub_user = u\<rparr> \<in> set (subscriptions d)
        then (Inr \<lparr>status = HTTP_204_NO_CONTENT, data = NoBody\<rparr>,
              d\<lparr>subscriptions := removeAll \<lparr>sub_author = pk, sub_user = u\<rparr> (subscriptions d)\<rparr>)
        else (Inr \<lparr>status = HTTP_400_BAD_REQUEST, data = Errors NotSubscribed\<rparr>, d)))"
  unfolding subscribe_def au ex request_user.case option.case
    subscription_eq filter_eq_Nil_notin filter_neq_removeAll
  using ne by (simp add: Let_def split: sum.splits)

lemma toggle_twice:
  assumes au: "req_user rq = AuthUser u"
    and ex: "pk \<in> recipe_id ` set (recipes d)"
  shows "(req_method rq = POST \<longrightarrow>
            shoppingcart_favorite_method rq pk m msg
              (snd (shoppingcart_favorite_method rq pk m msg d)) =
            (Inl (ValidationError RecipeAlreadyInList),
             snd (shoppingcart_favorite_method rq pk m msg d))) \<and>
         (req_method rq = DELETE \<longrightarrow>
            shoppingcart_favorite_method rq pk m msg
              (snd (shoppingcart_favorite_method rq pk m msg d)) =
            (Inr \<lparr>status = HTTP_400_BAD_REQUEST, data = Errors RecipeNotInList\<rparr>,
             snd (shoppingcart_favorite_method rq pk m msg d)))"
proof -
  from find_recipe_exists [OF ex] obtain r where
    r: "find (\<lambda>x. recipe_id x = pk) (recipes d) = Some r" "recipe_id r = pk"
    by blast
  let ?d1 = "snd (shoppingcart_favorite_method rq pk m msg d)"
  have rec: "recipes ?d1 = recipes d"
    by (simp add: toggle_cases [OF au r])
  have r1: "find (\<lambda>x. recipe_id x = pk) (recipes ?d1) = Some r"
    using r by (simp only: rec)
  have post: "\<lparr>ur_user = u, ur_recipe = pk\<rparr> \<in> set (objects m ?d1)" if "req_method rq = POST"
    using that by (simp add: toggle_cases [OF au r])
  have del: "\<lparr>ur_user = u, ur_recipe = pk\<rparr> \<notin> set (objects m ?d1)" if "req_method rq = DELETE"
    using that by (simp add: toggle_cases [OF au r])
  show ?thesis
    using post del by (simp add: toggle_cases [OF au r1 r(2)])
qed

lemma subscribe_twice:
  assumes au: "req_user rq = AuthUser u"
    and ex: "pk \<in> user_id ` set (users d)"
    and ne: "u \<noteq> pk"
  shows "(req_method rq = POST \<longrightarrow>
            subscribe py_int rq pk (snd (subscribe py_int rq pk d)) =
            (Inl (ValidationError AlreadySubscribed), snd (subscribe py_int rq pk d))) \<and>
         (req_method rq = DELETE \<longrightarrow>
            subscribe py_int rq pk (snd (subscribe py_int rq pk d)) =
            (Inr \<lparr>status = HTTP_400_BAD_REQUEST, data = Errors NotSubscribed\<rparr>,
             snd (subscribe py_int rq pk d)))"
proof -
  from find_user_exists [OF ex] obtain a where
    a: "find (\<lambda>x. user_id x = pk) (users d) = Some a" "user_id a = pk"
    by blast
  let ?d1 = "snd (subscribe py_int rq pk d)"
  have us: "users ?d1 = users d"
    by (simp add: subscribe_cases [OF au a ne])
  have a1: "find (\<lambda>x. user_id x = pk) (users ?d1) = Some a"
    using a by (simp only: us)
  have post: "\<lparr>sub_author = pk, sub_user = u\<rparr> \<in> set (subscriptions ?d1)" if "req_method rq = POST"
    using that by (simp add: subscribe_cases [OF au a ne])
  have del: "\<lparr>sub_author = pk, sub_user = u\<rparr> \<notin> set (subscriptions ?d1)" if "req_method rq = DELETE"
    using that by (simp add: subscribe_cases [OF au a ne])
  show ?thesis
    using post del by (simp add: subscribe_cases [OF au a1 a(2) ne])
qed

lemma client_errors:
  "is_client_error (reply_status (Inl (ValidationError e)))"
  "is_client_error (reply_status (Inr \<lparr>status = HTTP_400_BAD_REQUEST, data = b\<rparr>))"
  by (simp_all add: is_client_error_def reply_status_def HTTP_400_BAD_REQUEST_def)

text \<open>
  Claim C4, as the code has it. For an authenticated user and an existing target, each of
  the three relations follows one pattern. Adding a pair that is present fails with the
  already-exists validation error, a client error, and changes nothing; adding a pair
  that is absent appends exactly that pair to the relation and replies 201 with the
  view of the target: the summary of the recipe, or, for a subscription, the view-model
  of the author whenever it can be built (it is built for every limit that is not
  negative and that the storage takes as a row limit). Removing a pair that is absent replies 400 with the not-in-list error, a
  client error, and changes nothing; removing a pair that is present deletes exactly
  that pair and replies 204. So a second add fails with the already-exists error and a
  second remove with the not-found error. For subscriptions all this is for a user
  other than the author.
\<close>

theorem relation_toggle:
  assumes au: "req_user rq = AuthUser u"
  shows
   "(pk \<in> recipe_id ` set (recipes d) \<longrightarrow>
      (\<exists>r. find (\<lambda>x. recipe_id x = pk) (recipes d) = Some r \<and> recipe_id r = pk \<and>
         shoppingcart_favorite_method rq pk m msg d =
           (if req_method rq = POST then
              (if \<lparr>ur_user = u, ur_recipe = pk\<rparr> \<in> set (objects m d)
               then (Inl (ValidationError RecipeAlreadyInList), d)
               else (Inr \<lparr>status = HTTP_201_CREATED,
                          data = RecipeSummary (RecipeSummarySerializer r)\<rparr>,
                     set_objects m (objects m d @ [\<lparr>ur_user = u, ur_recipe = pk\<rparr>]) d))
            else
              (if \<lparr>ur_user = u, ur_recipe = pk\<rparr> \<in> set (objects m d)
               then (Inr \<lparr>status = HTTP_204_NO_CONTENT, data = Delete msg\<rparr>,
                     set_objects m (removeAll \<lparr>ur_user = u, ur_recipe = pk\<rparr> (objects m d)) d)
               else (Inr \<lparr>status = HTTP_400_BAD_REQUEST, data = Errors RecipeNotInList\<rparr>,
                     d)))) \<and>
      (req_method rq = POST \<longrightarrow>
         shoppingcart_favorite_method rq pk m msg
           (snd (shoppingcart_favorite_method rq pk m msg d)) =
         (Inl (ValidationError RecipeAlreadyInList),
          snd (shoppingcart_favorite_method rq pk m msg d))) \<and>
      (req_method rq = DELETE \<longrightarrow>
         shoppingcart_favorite_method rq pk m msg
           (snd (shoppingcart_favorite_method rq pk m msg d)) =
         (Inr \<lparr>status = HTTP_400_BAD_REQUEST, data = Errors RecipeNotInList\<rparr>,
          snd (shoppingcart_favorite_method rq pk m msg d)))) \<and>
    (pk \<in> user_id ` set (users d) \<and> u \<noteq> pk \<longrightarrow>
      (\<exists>a. find (\<lambda>x. user_id x = pk) (users d) = Some a \<and> user_id a = pk \<and>
         subscribe py_int rq pk d =
           (if req_method rq = POST then
              (if \<lparr>sub_author = pk, sub_user = u\<rparr> \<in> set (subscriptions d)
               then (Inl (ValidationError AlreadySubscribed), d)
               else
                 (case SubscriptionDetailSerializer py_int (Some rq) a
                         (d\<lparr>subscriptions := subscriptions d @
                              [\<lparr>sub_author = pk, sub_user = u\<rparr>]\<rparr>) of
                    Inl e \<Rightarrow> Inl e
                  | Inr x \<Rightarrow> Inr \<lparr>status = HTTP_201_CREATED, data = SubscriptionDetail x\<rparr>,
                  d\<lparr>subscriptions := subscriptions d @ [\<lparr>sub_author = pk, sub_user = u\<rparr>]\<rparr>))
            else
              (if \<lparr>sub_author = pk, sub_user = u\<rparr> \<in> set (subscriptions d)
               then (Inr \<lparr>status = HTTP_204_NO_CONTENT, data = NoBody\<rparr>,
                     d\<lparr>subscriptions :=
                         removeAll \<lparr>sub_author = pk, sub_user = u\<rparr> (subscriptions d)\<rparr>)
               else (Inr \<lparr>status = HTTP_400_BAD_REQUEST, data = Errors NotSubscribed\<rparr>, d))) \<and>
         (0 \<le> recipes_limit py_int (Some rq) \<and> recipes_limit py_int (Some rq) \<le> max_limit \<longrightarrow>
            (\<exists>x. SubscriptionDetailSerializer py_int (Some rq) a
                    (d\<lparr>subscriptions := subscriptions d @
                         [\<lparr>sub_author = pk, sub_user = u\<rparr>]\<rparr>) = Inr x \<and>
                 sd_id x = pk))) \<and>
      (req_method rq = POST \<longrightarrow>
         subscribe py_int rq pk (snd (subscribe py_int rq pk d)) =
         (Inl (ValidationError AlreadySubscribed), snd (subscribe py_int rq pk d))) \<and>
      (req_method rq = DELETE \<longrightarrow>
         subscribe py_int rq pk (snd (subscribe py_int rq pk d)) =
         (Inr \<lparr>status = HTTP_400_BAD_REQUEST, data = Errors NotSubscribed\<rparr>,
          snd (subscribe py_int rq pk d)))) \<and>
    favorite rq pk d = shoppingcart_favorite_method rq pk Favorite RemovedFromFavorites d \<and>
    shopping_cart rq pk d =
      shoppingcart_favorite_method rq pk ShoppingCart RemovedFromShoppingCart d \<and>
    is_client_error (reply_status (Inl (ValidationError RecipeAlreadyInList))) \<and>
    is_client_error (reply_status (Inl (ValidationError AlreadySubscribed))) \<and>
    is_client_error
      (reply_status (Inr \<lparr>status = HTTP_400_BAD_REQUEST, data = Errors RecipeNotInList\<rparr>)) \<and>
    is_client_error
      (reply_status (Inr \<lparr>status = HTTP_400_BAD_REQUEST, data = Errors NotSubscribed\<rparr>))"
proof (intro conjI impI)
  assume ex: "pk \<in> recipe_id ` set (recipes d)"
  from find_recipe_exists [OF ex] obtain r where
    r: "find (\<lambda>x. recipe_id x = pk) (recipes d) = Some r" "recipe_id r = pk"
    by blast
  from r toggle_cases [OF au r, of m msg]
  show "\<exists>r. find (\<lambda>x. recipe_id x = pk) (recipes d) = Some r \<and> recipe_id r = pk \<and>
         shoppingcart_favorite_method rq pk m msg d =
           (if req_method rq = POST then
              (if \<lparr>ur_user = u, ur_recipe = pk\<rparr> \<in> set (objects m d)
               then (Inl (ValidationError RecipeAlreadyInList), d)
               else (Inr \<lparr>status = HTTP_201_CREATED,
                          data = RecipeSummary (RecipeSummarySerializer r)\<rparr>,
                     set_objects m (objects m d @ [\<lparr>ur_user = u, ur_recipe = pk\<rparr>]) d))
            else
              (if \<lparr>ur_user = u, ur_recipe = pk\<rparr> \<in> set (objects m d)
               then (Inr \<lparr>status = HTTP_204_NO_CONTENT, data = Delete msg\<rparr>,
                     set_objects m (removeAll \<lparr>ur_user = u, ur_recipe = pk\<rparr> (objects m d)) d)
               else (Inr \<lparr>status = HTTP_400_BAD_REQUEST, data = Errors RecipeNotInList\<rparr>,
                     d)))"
    by blast
next
  assume "pk \<in> recipe_id ` set (recipes d)" "req_method rq = POST"
  with toggle_twice [OF au, of pk d m msg]
  show "shoppingcart_favorite_method rq pk m msg
           (snd (shoppingcart_favorite_method rq pk m msg d)) =
         (Inl (ValidationError RecipeAlreadyInList),
          snd (shoppingcart_favorite_method rq pk m msg d))"
    by blast
next
  assume "pk \<in> recipe_id ` set (recipes d)" "req_method rq = DELETE"
  with toggle_twice [OF au, of pk d m msg]
  show "shoppingcart_favorite_method rq pk m msg
           (snd (shoppingcart_favorite_method rq pk m msg d)) =
         (Inr \<lparr>status = HTTP_400_BAD_REQUEST, data = Errors RecipeNotInList\<rparr>,
          snd (shoppingcart_favorite_method rq pk m msg d))"
    by blast
next
  assume h: "pk \<in> user_id ` set (users d) \<and> u \<noteq> pk"
  then have ex: "pk \<in> user_id ` set (users d)" and ne: "u \<noteq> pk"
    by simp_all
  from find_user_exists [OF ex] obtain a where
    a: "find (\<lambda>x. user_id x = pk) (users d) = Some a" "user_id a = pk"
    by blast
  have lim: "0 \<le> recipes_limit py_int (Some rq) \<and> recipes_limit py_int (Some rq) \<le> max_limit \<longrightarrow>
            (\<exists>x. SubscriptionDetailSerializer py_int (Some rq) a
                    (d\<lparr>subscriptions := subscriptions d @
                         [\<lparr>sub_author = pk, sub_user = u\<rparr>]\<rparr>) = Inr x \<and>
                 sd_id x = pk)"
    using SubscriptionDetailSerializer_ok [of py_int "Some rq" a] a(2) by blast
  from a lim subscribe_cases [OF au a ne, of py_int]
  show "\<exists>a. find (\<lambda>x. user_id x = pk) (users d) = Some a \<and> user_id a = pk \<and>
         subscribe py_int rq pk d =
           (if req_method rq = POST then
              (if \<lparr>sub_author = pk, sub_user = u\<rparr> \<in> set (subscriptions d)
               then (Inl (ValidationError AlreadySubscribed), d)
               else
                 (case SubscriptionDetailSerializer py_int (Some rq) a
                         (d\<lparr>subscriptions := subscriptions d @
                              [\<lparr>sub_author = pk, sub_user = u\<rparr>]\<rparr>) of
                    Inl e \<Rightarrow> Inl e
                  | Inr x \<Rightarrow> Inr \<lparr>status = HTTP_201_CREATED, data = SubscriptionDetail x\<rparr>,
                  d\<lparr>subscriptions := subscriptions d @ [\<lparr>sub_author = pk, sub_user = u\<rparr>]\<rparr>))
            else
              (if \<lparr>sub_author = pk, sub_user = u\<rparr> \<in> set (subscriptions d)
               then (Inr \<lparr>status = HTTP_204_NO_CONTENT, data = NoBody\<rparr>,
                     d\<lparr>subscriptions :=
                         removeAll \<lparr>sub_author = pk, sub_user = u\<rparr> (subscriptions d)\<rparr>)
               else (Inr \<lparr>status = HTTP_400_BAD_REQUEST, data = Errors NotSubscribed\<rparr>, d))) \<and>
         (0 \<le> recipes_limit py_int (Some rq) \<and> recipes_limit py_int (Some rq) \<le> max_limit \<longrightarrow>
            (\<exists>x. SubscriptionDetailSerializer py_int (Some rq) a
                    (d\<lparr>subscriptions := subscriptions d @
                         [\<lparr>sub_author = pk, sub_user = u\<rparr>]\<rparr>) = Inr x \<and>
                 sd_id x = pk))"
    by blast
next
  assume "pk \<in> user_id ` set (users d) \<and> u \<noteq> pk" "req_method rq = POST"
  with subscribe_twice [OF au, of pk d py_int]
  show "subscribe py_int rq pk (snd (subscribe py_int rq pk d)) =
         (Inl (ValidationError AlreadySubscribed), snd (subscribe py_int rq pk d))"
    by blast
next
  assume "pk \<in> user_id ` set (users d) \<and> u \<noteq> pk" "req_method rq = DELETE"
  with subscribe_twice [OF au, of pk d py_int]
  show "subscribe py_int rq pk (snd (subscribe py_int rq pk d)) =
         (Inr \<lparr>status = HTTP_400_BAD_REQUEST, data = Errors NotSubscribed\<rparr>,
          snd (subscribe py_int rq pk d))"
    by blast
qed (simp_all add: favorite_def shopping_cart_def client_errors)

theorem relation_toggle_witness:
  "req_user post_as_alice = AuthUser 1 \<and> req_user delete_as_bob = AuthUser 2 \<and>
   req_user post_as_bob = AuthUser 2 \<and>
   1 \<in> recipe_id ` set (recipes example_db) \<and> 1 \<in> user_id ` set (users example_db) \<and>
   shopping_cart post_as_alice 1 example_db =
     (Inr \<lparr>status = 201, data = RecipeSummary (RecipeSummarySerializer recipe_A)\<rparr>,
      example_db\<lparr>shoppingcarts := shoppingcarts example_db @
                    [\<lparr>ur_user = 1, ur_recipe = 1\<rparr>]\<rparr>) \<and>
   shopping_cart post_as_alice 1 (snd (shopping_cart post_as_alice 1 example_db)) =
     (Inl (ValidationError RecipeAlreadyInList),
      snd (shopping_cart post_as_alice 1 example_db)) \<and>
   shopping_cart delete_as_bob 1 example_db =
     (Inr \<lparr>status = 204, data = Delete RemovedFromShoppingCart\<rparr>,
      example_db\<lparr>shoppingcarts := [\<lparr>ur_user = 2, ur_recipe = 2\<rparr>]\<rparr>) \<and>
   shopping_cart delete_as_bob 1 (snd (shopping_cart delete_as_bob 1 example_db)) =
     (Inr \<lparr>status = 400, data = Errors RecipeNotInList\<rparr>,
      snd (shopping_cart delete_as_bob 1 example_db)) \<and>
   0 \<le> recipes_limit dec_int (Some post_as_bob) \<and>
   recipes_limit dec_int (Some post_as_bob) \<le> max_limit \<and>
   (\<exists>x. fst (subscribe dec_int post_as_bob 1 example_db) =
          Inr \<lparr>status = 201, data = SubscriptionDetail x\<rparr> \<and> sd_id x = 1) \<and>
   snd (subscribe dec_int post_as_bob 1 example_db) =
     example_db\<lparr>subscriptions := [\<lparr>sub_author = 1, sub_user = 2\<rparr>]\<rparr> \<and>
   subscribe dec_int post_as_bob 1 (snd (subscribe dec_int post_as_bob 1 example_db)) =
     (Inl (ValidationError AlreadySubscribed),
      snd (subscribe dec_int post_as_bob 1 example_db))"
proof -
  have u1: "req_user post_as_alice = AuthUser 1" and u2: "req_user delete_as_bob = AuthUser 2"
    and u3: "req_user post_as_bob = AuthUser 2"
    by (simp_all add: post_as_alice_def delete_as_bob_def post_as_bob_def)
  have m1: "req_method post_as_alice = POST" and m2: "req_method delete_as_bob = DELETE"
    and m3: "req_method post_as_bob = POST"
    by (simp_all add: post_as_alice_def delete_as_bob_def post_as_bob_def)
  have e1: "1 \<in> recipe_id ` set (recipes example_db)"
    by (simp add: example_db_def recipe_A_def)
  have e2: "1 \<in> user_id ` set (users example_db)"
    by (simp add: example_db_def alice_def)
  have f1: "find (\<lambda>x. recipe_id x = 1) (recipes example_db) = Some recipe_A"
    by (simp add: example_db_def recipe_A_def)
  have o: "objects ShoppingCart example_db =
      [\<lparr>ur_user = 2, ur_recipe = 1\<rparr>, \<lparr>ur_user = 2, ur_recipe = 2\<rparr>]"
    by (simp add: objects_def example_db_def)
  have s: "subscriptions example_db = []"
    by (simp add: example_db_def)
  note t1 = relation_toggle [OF u1, of 1 example_db ShoppingCart RemovedFromShoppingCart dec_int]
  note t2 = relation_toggle [OF u2, of 1 example_db ShoppingCart RemovedFromShoppingCart dec_int]
  note t3 = relation_toggle [OF u3, of 1 example_db ShoppingCart RemovedFromShoppingCart dec_int]
  have a1: "shopping_cart post_as_alice 1 example_db =
     (Inr \<lparr>status = 201, data = RecipeSummary (RecipeSummarySerializer recipe_A)\<rparr>,
      example_db\<lparr>shoppingcarts := shoppingcarts example_db @
                    [\<lparr>ur_user = 1, ur_recipe = 1\<rparr>]\<rparr>)"
    using t1 e1 f1 m1 o
    by (simp add: HTTP_201_CREATED_def set_objects_def objects_def)
  have a2: "shopping_cart post_as_alice 1 (snd (shopping_cart post_as_alice 1 example_db)) =
     (Inl (ValidationError RecipeAlreadyInList),
      snd (shopping_cart post_as_alice 1 example_db))"
    using t1 e1 m1 by (simp add: shopping_cart_def)
  have b1: "shopping_cart delete_as_bob 1 example_db =
     (Inr \<lparr>status = 204, data = Delete RemovedFromShoppingCart\<rparr>,
      example_db\<lparr>shoppingcarts := [\<lparr>ur_user = 2, ur_recipe = 2\<rparr>]\<rparr>)"
    using t2 e1 f1 m2 o
    by (simp add: HTTP_204_NO_CONTENT_def set_objects_def)
  have b2: "shopping_cart delete_as_bob 1 (snd (shopping_cart delete_as_bob 1 example_db)) =
     (Inr \<lparr>status = 400, data = Errors RecipeNotInList\<rparr>,
      snd (shopping_cart delete_as_bob 1 example_db))"
    using t2 e1 m2 by (simp add: shopping_cart_def HTTP_400_BAD_REQUEST_def)
  have ne: "(2::nat) \<noteq> 1"
    by simp
  have lim: "0 \<le> recipes_limit dec_int (Some post_as_bob)"
    "recipes_limit dec_int (Some post_as_bob) \<le> max_limit"
    by (simp_all add: recipes_limit_def querydict_get_def post_as_bob_def default_limit_def
        max_limit_def)
  have c0: "\<exists>x. fst (subscribe dec_int post_as_bob 1 example_db) =
          Inr \<lparr>status = 201, data = SubscriptionDetail x\<rparr> \<and> sd_id x = 1"
    using t3 e2 m3 s ne lim by (auto simp: HTTP_201_CREATED_def)
  have c1: "snd (subscribe dec_int post_as_bob 1 example_db) =
     example_db\<lparr>subscriptions := [\<lparr>sub_author = 1, sub_user = 2\<rparr>]\<rparr>"
    using t3 e2 m3 s ne by auto
  have c2: "subscribe dec_int post_as_bob 1 (snd (subscribe dec_int post_as_bob 1 example_db)) =
     (Inl (ValidationError AlreadySubscribed),
      snd (subscribe dec_int post_as_bob 1 example_db))"
    using t3 e2 m3 ne by blast
  from u1 u2 u3 e1 e2 a1 a2 b1 b2 lim c0 c1 c2 show ?thesis
    by (intro conjI)
qed

text \<open>
  The claim as stated fails for a subscription of a user to themselves: the pair is
  absent, and the add neither creates it nor returns a view, the remove does not reply
  with the not-subscribed error; both end with the self-subscription error.
\<close>

theorem subscribe_self_pair_counterexample:
  "req_user post_as_alice = AuthUser 1 \<and> 1 \<in> user_id ` set (users example_db) \<and>
   \<lparr>sub_author = 1, sub_user = 1\<rparr> \<notin> set (subscriptions example_db) \<and>
   subscribe dec_int post_as_alice 1 example_db =
     (Inl (ValidationError CannotSubscribeToSelf), example_db) \<and>
   subscribe dec_int delete_as_alice 1 example_db \<noteq>
     (Inr \<lparr>status = HTTP_400_BAD_REQUEST, data = Errors NotSubscribed\<rparr>, example_db)"
  by code_simp

section \<open>Shopping list\<close>

lemma filter_key_singleton:
  "distinct (map f xs) \<Longrightarrow> x \<in> set xs \<Longrightarrow> filter (\<lambda>y. f y = f x) xs = [x]"
proof (induction xs)
  case Nil
  then show ?case by simp
next
  case (Cons a xs)
  from Cons.prems(1) have na: "f a \<notin> f ` set xs" and dx: "distinct (map f xs)"
    by simp_all
  show ?case
  proof (cases "a = x")
    case True
    from na True have "\<forall>y \<in> set xs. f y \<noteq> f x"
      by (metis imageI)
    then have "filter (\<lambda>y. f y = f x) xs = []"
      by (simp add: filter_empty_conv)
    with True show ?thesis by simp
  next
    case False
    with Cons.prems(2) have xin: "x \<in> set xs" by simp
    with na have "f a \<noteq> f x" by auto
    with Cons.IH [OF dx xin] show ?thesis by simp
  qed
qed

lemma concat_map_if_singleton:
  "concat (map (\<lambda>x. if P x then [g x] else []) xs) = map g (filter P xs)"
  by (induction xs) auto

lemma concat_map_select:
  "distinct (map f xs) \<Longrightarrow> x \<in> set xs \<Longrightarrow>
   concat (map (\<lambda>y. if f y = f x then G y else []) xs) = G x"
proof (induction xs)
  case Nil
  then show ?case by simp
next
  case (Cons a xs)
  from Cons.prems(1) have na: "f a \<notin> f ` set xs" and dx: "distinct (map f xs)"
    by simp_all
  show ?case
  proof (cases "a = x")
    case True
    from na True have "\<forall>y \<in> set xs. f y \<noteq> f x"
      by (metis imageI)
    then have "concat (map (\<lambda>y. if f y = f x then G y else []) xs) = []"
      by (induction xs) auto
    with True show ?thesis by simp
  next
    case False
    with Cons.prems(2) have xin: "x \<in> set xs" by simp
    with na have "f a \<noteq> f x" by auto
    with Cons.IH [OF dx xin] show ?thesis by simp
  qed
qed

lemma filter_eq_distinct:
  "distinct ks \<Longrightarrow> filter (\<lambda>k. k = x) ks = (if x \<in> set ks then [x] else [])"
  using filter_key_singleton [of "\<lambda>k. k" ks x] by (auto simp: filter_empty_conv)

lemma cart_multiplicity:
  assumes pk: "distinct (map recipe_id recs)"
    and uq: "distinct (map (\<lambda>x. (ur_user x, ur_recipe x)) carts)"
    and fk: "set (map ur_recipe carts) \<subseteq> set (map recipe_id recs)"
  shows "concat (map (\<lambda>r. map (\<lambda>sc. v)
             (filter (\<lambda>sc. ur_recipe sc = recipe_id r \<and> ur_user sc = usr) carts))
           (filter (\<lambda>r. recipe_id r = rid) recs)) =
         (if rid \<in> set (map ur_recipe (filter (\<lambda>x. ur_user x = usr) carts)) then [v] else [])"
proof (cases "rid \<in> set (map ur_recipe (filter (\<lambda>x. ur_user x = usr) carts))")
  case True
  then obtain sc0 where sc0: "sc0 \<in> set carts" "ur_user sc0 = usr" "ur_recipe sc0 = rid"
    by auto
  with fk obtain r0 where r0: "r0 \<in> set recs" "recipe_id r0 = rid"
    by auto
  have a: "filter (\<lambda>r. recipe_id r = rid) recs = [r0]"
    using filter_key_singleton [OF pk r0(1)] r0(2) by simp
  have "filter (\<lambda>sc. ur_recipe sc = recipe_id r0 \<and> ur_user sc = usr) carts =
        filter (\<lambda>sc. (ur_user sc, ur_recipe sc) = (ur_user sc0, ur_recipe sc0)) carts"
    using sc0 r0 by (auto intro: filter_cong)
  also have "\<dots> = [sc0]"
    by (rule filter_key_singleton [OF uq sc0(1)])
  finally have b: "filter (\<lambda>sc. ur_recipe sc = recipe_id r0 \<and> ur_user sc = usr) carts = [sc0]" .
  from True show ?thesis by (simp add: a b)
next
  case False
  then have "\<forall>sc \<in> set carts. \<not> (ur_recipe sc = rid \<and> ur_user sc = usr)"
    by auto
  then have "\<forall>r \<in> set (filter (\<lambda>r. recipe_id r = rid) recs).
      filter (\<lambda>sc. ur_recipe sc = recipe_id r \<and> ur_user sc = usr) carts = []"
    by (auto simp: filter_empty_conv)
  then have "concat (map (\<lambda>r. map (\<lambda>sc. v)
             (filter (\<lambda>sc. ur_recipe sc = recipe_id r \<and> ur_user sc = usr) carts))
           (filter (\<lambda>r. recipe_id r = rid) recs)) = []"
    by simp
  with False show ?thesis by simp
qed

text \<open>Under the constraints every joined row stands for one recipe ingredient of the cart.\<close>

lemma cart_join_rows:
  assumes pk: "recipe_pk d" and uq: "shoppingcart_unique_user_recipe d"
    and fk: "shoppingcart_recipe_fk d"
  shows "cart_join usr d =
     concat (map (\<lambda>i. map (\<lambda>ri. (i, ri))
       (filter (\<lambda>ri. ri_recipe ri \<in> cart_recipe_ids usr d)
          (filter (\<lambda>ri. ri_ingredient ri = ingredient_id i) (recipe_ingredients d))))
       (ingredients d))"
proof -
  have pk': "distinct (map recipe_id (recipes d))"
    using pk by (simp add: recipe_pk_def)
  have uq': "distinct (map (\<lambda>x. (ur_user x, ur_recipe x)) (shoppingcarts d))"
    using uq by (simp add: shoppingcart_unique_user_recipe_def)
  have fk': "set (map ur_recipe (shoppingcarts d)) \<subseteq> set (map recipe_id (recipes d))"
    using fk by (simp add: shoppingcart_recipe_fk_def)
  show ?thesis
    unfolding cart_join_def cart_multiplicity [OF pk' uq' fk'] cart_recipe_ids_def
      concat_map_if_singleton ..
qed

lemma filter_rows_of:
  "filter (\<lambda>p. (name (fst p), measurement_unit (fst p)) = k) (map (\<lambda>ri. (i, ri)) xs) =
     (if (name i, measurement_unit i) = k then map (\<lambda>ri. (i, ri)) xs else [])"
  by (induction xs) auto

lemma group_filter:
  "filter (\<lambda>l. cl_name l = a \<and> cl_measurement l = b)
     (map (\<lambda>k. \<lparr>cl_name = fst k, cl_measurement = snd k, cl_amount = f k\<rparr>) ks) =
   map (\<lambda>k. \<lparr>cl_name = fst k, cl_measurement = snd k, cl_amount = f k\<rparr>)
     (filter (\<lambda>k. k = (a, b)) ks)"
  by (induction ks) auto

lemma cart_join_group:
  assumes pk: "recipe_pk d" and uq: "shoppingcart_unique_user_recipe d"
    and fk: "shoppingcart_recipe_fk d" and un: "unique_ingredient_name_unit d"
    and i: "i \<in> set (ingredients d)"
  shows "filter (\<lambda>p. (name (fst p), measurement_unit (fst p)) = (name i, measurement_unit i))
           (cart_join usr d) =
         map (\<lambda>ri. (i, ri))
           (filter (\<lambda>ri. ri_ingredient ri = ingredient_id i \<and>
                         ri_recipe ri \<in> cart_recipe_ids usr d) (recipe_ingredients d))"
proof -
  let ?H = "\<lambda>i. map (\<lambda>ri. (i, ri))
       (filter (\<lambda>ri. ri_recipe ri \<in> cart_recipe_ids usr d)
          (filter (\<lambda>ri. ri_ingredient ri = ingredient_id i) (recipe_ingredients d)))"
  have un': "distinct (map (\<lambda>i. (name i, measurement_unit i)) (ingredients d))"
    using un by (simp add: unique_ingredient_name_unit_def)
  have "filter (\<lambda>p. (name (fst p), measurement_unit (fst p)) = (name i, measurement_unit i))
           (cart_join usr d) =
        concat (map (\<lambda>y. if (name y, measurement_unit y) = (name i, measurement_unit i)
                          then ?H y else []) (ingredients d))"
    unfolding cart_join_rows [OF pk uq fk] filter_concat map_map comp_def filter_rows_of ..
  also have "\<dots> = ?H i"
    by (rule concat_map_select [OF un' i])
  also have "\<dots> = map (\<lambda>ri. (i, ri))
           (filter (\<lambda>ri. ri_ingredient ri = ingredient_id i \<and>
                         ri_recipe ri \<in> cart_recipe_ids usr d) (recipe_ingredients d))"
    by simp
  finally show ?thesis .
qed

text \<open>
  Claim C1. The shopping list of a user joins the recipe ingredients to their recipes
  and to the shopping cart rows of that user, groups the joined rows by ingredient (name
  and measurement unit) and sums the amounts of each group. Under the constraints of
  the models (ingredients unique by name and unit, cart rows unique by user and recipe,
  recipe ids unique, every cart row points to a stored recipe), every ingredient that
  occurs in some recipe of the user's cart has exactly one line in the list, and the
  amount of that line is the sum of the amounts of this ingredient over the recipes of
  the cart.
\<close>

theorem shopping_list_one_line_per_ingredient:
  assumes pk: "recipe_pk d" and uq: "shoppingcart_unique_user_recipe d"
    and fk: "shoppingcart_recipe_fk d" and un: "unique_ingredient_name_unit d"
    and i: "i \<in> set (ingredients d)"
    and used: "\<exists>ri \<in> set (recipe_ingredients d).
                 ri_ingredient ri = ingredient_id i \<and> ri_recipe ri \<in> cart_recipe_ids usr d"
  shows "filter (\<lambda>l. cl_name l = name i \<and> cl_measurement l = measurement_unit i)
           (shopping_cart_ingredients usr d) =
         [\<lparr>cl_name = name i, cl_measurement = measurement_unit i,
           cl_amount = sum_list (map amount
             (filter (\<lambda>ri. ri_ingredient ri = ingredient_id i \<and>
                           ri_recipe ri \<in> cart_recipe_ids usr d) (recipe_ingredients d)))\<rparr>]"
proof -
  let ?key = "\<lambda>p::ingredient \<times> recipe_ingredient. (name (fst p), measurement_unit (fst p))"
  let ?K = "(name i, measurement_unit i)"
  let ?rows = "cart_join usr d"
  let ?mine = "filter (\<lambda>ri. ri_ingredient ri = ingredient_id i \<and>
                           ri_recipe ri \<in> cart_recipe_ids usr d) (recipe_ingredients d)"
  note g = cart_join_group [OF pk uq fk un i, of usr]
  from used obtain ri where "ri \<in> set ?mine"
    by auto
  then have "(i, ri) \<in> set (filter (\<lambda>p. ?key p = ?K) ?rows)"
    unfolding g by simp
  then have "(i, ri) \<in> set ?rows"
    by simp
  then have "?key (i, ri) \<in> set (map ?key ?rows)"
    by (simp only: set_map) (rule imageI)
  then have inK: "?K \<in> set (remdups (map ?key ?rows))"
    by simp
  have total: "sum_list (map (\<lambda>p. amount (snd p)) (filter (\<lambda>p. ?key p = ?K) ?rows)) =
               sum_list (map amount ?mine)"
    unfolding g by (simp add: comp_def)
  have "filter (\<lambda>l. cl_name l = name i \<and> cl_measurement l = measurement_unit i)
           (shopping_cart_ingredients usr d) =
        map (\<lambda>k. \<lparr>cl_name = fst k, cl_measurement = snd k,
                   cl_amount = sum_list (map (\<lambda>p. amount (snd p))
                     (filter (\<lambda>p. ?key p = k) ?rows))\<rparr>)
          (filter (\<lambda>k. k = ?K) (remdups (map ?key ?rows)))"
    unfolding shopping_cart_ingredients_def Let_def by (rule group_filter)
  also have "filter (\<lambda>k. k = ?K) (remdups (map ?key ?rows)) = [?K]"
    using inK by (simp add: filter_eq_distinct)
  finally show ?thesis
    using total by simp
qed

text \<open>
  The example of the specification: Bob's cart holds recipe A with 2 g of salt and
  recipe B with 3 g of salt; the list has one salt line with total 5, and so has the
  document.
\<close>

theorem shopping_list_one_line_per_ingredient_witness:
  "recipe_pk example_db \<and> shoppingcart_unique_user_recipe example_db \<and>
   shoppingcart_recipe_fk example_db \<and> unique_ingredient_name_unit example_db \<and>
   salt \<in> set (ingredients example_db) \<and>
   cart_recipe_ids 2 example_db = {1, 2} \<and>
   filter (\<lambda>l. cl_name l = ''salt'' \<and> cl_measurement l = ''g'')
     (shopping_cart_ingredients 2 example_db) =
     [\<lparr>cl_name = ''salt'', cl_measurement = ''g'', cl_amount = 5\<rparr>] \<and>
   download_shopping_cart ascii_capitalize 64 ''2024-01-01 12:00'' get_as_bob example_db =
     Inr [Header ''2024-01-01 12:00'', RecipesTitle, RecipeLine 1 ''B'', RecipeLine 2 ''A'',
          ProductsTitle, IngredientLine 1 ''Salt'' 5 ''g'']"
proof -
  have pk: "recipe_pk example_db"
    by code_simp
  have uq: "shoppingcart_unique_user_recipe example_db"
    by code_simp
  have fk: "shoppingcart_recipe_fk example_db"
    by code_simp
  have un: "unique_ingredient_name_unit example_db"
    by code_simp
  have i: "salt \<in> set (ingredients example_db)"
    by (simp add: example_db_def)
  have c: "cart_recipe_ids 2 example_db = {1, 2}"
    by (simp add: cart_recipe_ids_def example_db_def)
  have used: "\<exists>ri \<in> set (recipe_ingredients example_db).
      ri_ingredient ri = ingredient_id salt \<and> ri_recipe ri \<in> cart_recipe_ids 2 example_db"
    unfolding c by (simp add: example_db_def salt_def)
  have s: "name salt = ''salt''" "measurement_unit salt = ''g''" "ingredient_id salt = 1"
    by (simp_all add: salt_def)
  have t: "sum_list (map amount
             (filter (\<lambda>ri. ri_ingredient ri = 1 \<and> ri_recipe ri \<in> {1, 2})
                (recipe_ingredients example_db))) = 5"
    by (simp add: example_db_def)
  have l: "filter (\<lambda>l. cl_name l = ''salt'' \<and> cl_measurement l = ''g'')
     (shopping_cart_ingredients 2 example_db) =
     [\<lparr>cl_name = ''salt'', cl_measurement = ''g'', cl_amount = 5\<rparr>]"
    using shopping_list_one_line_per_ingredient [OF pk uq fk un i used]
    unfolding s c t .
  have doc: "download_shopping_cart ascii_capitalize 64 ''2024-01-01 12:00'' get_as_bob example_db =
     Inr [Header ''2024-01-01 12:00'', RecipesTitle, RecipeLine 1 ''B'', RecipeLine 2 ''A'',
          ProductsTitle, IngredientLine 1 ''Salt'' 5 ''g'']"
    by code_simp
  from pk uq fk un i c l doc show ?thesis
    by blast
qed

end
